theory Spec2Isabelle
  imports Complex_Main "HOL-Library.AList"
begin

section \<open>Exceptions\<close>

datatype exn = KeyError | AttributeError | RuntimeError | ConnectionClosed | OverflowError

section \<open>Python floats\<close>

text \<open>
  A Python \<^verbatim>\<open>float\<close> (and a NumPy \<^verbatim>\<open>float64\<close>) is an IEEE 754 double: not a
  number, an infinity, or a finite value. Every finite double is an integer times a power
  of two: \<open>Finite m e\<close> stands for \<open>m * 2 ^ e\<close>, so \<open>0.5\<close> is \<open>Finite 1 (- 1)\<close> and
  \<open>12.5\<close> is \<open>Finite 25 (- 1)\<close>. One double can be written with several pairs; the code
  never compares floats but by \<^verbatim>\<open><\<close>, which goes by the value. The two zeros are not
  told apart (they compare equal).
\<close>

datatype pyfloat = NaN | NegInf | PosInf | Finite int int

text \<open>
  \<^verbatim>\<open>a < b\<close> on floats: false whenever one side is not a number; finite values are
  compared after bringing both to the smaller exponent.
\<close>

definition float_less :: "pyfloat \<Rightarrow> pyfloat \<Rightarrow> bool" where
  "float_less a b =
     (case (a, b) of
        (Finite m1 e1, Finite m2 e2) \<Rightarrow>
          m1 * 2 ^ nat (e1 - min e1 e2) < m2 * 2 ^ nat (e2 - min e1 e2)
      | (Finite m1 e1, PosInf) \<Rightarrow> True
      | (NegInf, Finite m2 e2) \<Rightarrow> True
      | (NegInf, PosInf) \<Rightarrow> True
      | _ \<Rightarrow> False)"

text \<open>
  The arithmetic on floats is the platform's (the C library behind Python's
  \<^verbatim>\<open>-\<close>, \<^verbatim>\<open>+\<close> and \<^verbatim>\<open>**\<close>, and NumPy's \<^verbatim>\<open>sqrt\<close>), not the repository's: the
  functions that compute with floats take it as a parameter. \<open>fpow2 x\<close> is
  \<^verbatim>\<open>x ** 2\<close>, which raises OverflowError when the square is out of range.
\<close>

record float_ops =
  fsub :: "pyfloat \<Rightarrow> pyfloat \<Rightarrow> pyfloat"
  fadd :: "pyfloat \<Rightarrow> pyfloat \<Rightarrow> pyfloat"
  fpow2 :: "pyfloat \<Rightarrow> exn + pyfloat"
  fsqrt :: "pyfloat \<Rightarrow> pyfloat"

subsection \<open>IEEE 754 double arithmetic\<close>

text \<open>
  The arithmetic of the usual platforms: every operation gives the exact result rounded
  to the nearest double, ties to the even one (53 significant bits, least exponent
  \<open>- 1074\<close>, overflow to infinity from \<open>2 ^ 1024\<close> on).

  \<open>bitlen n\<close> is the number of binary digits of \<open>n\<close>. \<open>round_double m e\<close> rounds
  the exact value \<open>m * 2 ^ e\<close>: \<open>qe\<close> is the exponent of the last place of the result,
  and a mantissa that has places below it is cut there and rounded on what was cut.
\<close>

fun bitlen :: "nat \<Rightarrow> nat" where
  "bitlen n = (if n = 0 then 0 else Suc (bitlen (n div 2)))"

declare bitlen.simps [simp del]

definition round_double :: "int \<Rightarrow> int \<Rightarrow> pyfloat" where
  "round_double m e =
     (if m = 0 then Finite 0 0
      else
        let a = \<bar>m\<bar>;
            qe = max (int (bitlen (nat a)) - 1 + e - 52) (- 1074);
            q = (if qe \<le> e then a * 2 ^ nat (e - qe)
                 else
                   let d = a div 2 ^ nat (qe - e);
                       r = a mod 2 ^ nat (qe - e);
                       h = 2 ^ (nat (qe - e) - 1)
                   in if h < r \<or> (r = h \<and> odd d) then d + 1 else d)
        in if 1024 < int (bitlen (nat q)) + qe then (if 0 < m then PosInf else NegInf)
           else Finite (if 0 < m then q else - q) qe)"

text \<open>
  \<open>isqrt n\<close> is the integer square root (the greatest \<open>r\<close> with \<open>r * r \<le> n\<close>).
  \<open>sqrt_double m e\<close> is the square root of \<open>m * 2 ^ e\<close>, for \<open>m > 0\<close>, rounded to the
  nearest double: with \<open>qs\<close> the exponent of the last place of the root, the value is
  \<open>num / den * 2 ^ (2 * qs)\<close>, the root of \<open>num / den\<close> is between \<open>f\<close> and \<open>f + 1\<close>,
  and it is above \<open>f + 1 / 2\<close> when \<open>(2 * f + 1)\<^sup>2 * den < 4 * num\<close> (it is never equal).
\<close>

fun isqrt :: "nat \<Rightarrow> nat" where
  "isqrt n =
     (if n < 2 then n
      else let r = 2 * isqrt (n div 4) in if (r + 1) * (r + 1) \<le> n then r + 1 else r)"

declare isqrt.simps [simp del]

definition sqrt_double :: "int \<Rightarrow> int \<Rightarrow> pyfloat" where
  "sqrt_double m e =
     (let qs = (int (bitlen (nat m)) - 1 + e) div 2 - 52;
          k = e - 2 * qs;
          num = (if 0 \<le> k then m * 2 ^ nat k else m);
          den = (if 0 \<le> k then 1 else 2 ^ nat (- k));
          f = int (isqrt (nat (num div den)))
      in Finite (if (2 * f + 1) * (2 * f + 1) * den < 4 * num then f + 1 else f) qs)"

definition float_neg :: "pyfloat \<Rightarrow> pyfloat" where
  "float_neg a =
     (case a of NaN \<Rightarrow> NaN | NegInf \<Rightarrow> PosInf | PosInf \<Rightarrow> NegInf
      | Finite m e \<Rightarrow> Finite (- m) e)"

definition ieee_add :: "pyfloat \<Rightarrow> pyfloat \<Rightarrow> pyfloat" where
  "ieee_add a b =
     (case (a, b) of
        (Finite m1 e1, Finite m2 e2) \<Rightarrow>
          round_double (m1 * 2 ^ nat (e1 - min e1 e2) + m2 * 2 ^ nat (e2 - min e1 e2))
            (min e1 e2)
      | (NaN, _) \<Rightarrow> NaN
      | (_, NaN) \<Rightarrow> NaN
      | (PosInf, NegInf) \<Rightarrow> NaN
      | (NegInf, PosInf) \<Rightarrow> NaN
      | (PosInf, _) \<Rightarrow> PosInf
      | (_, PosInf) \<Rightarrow> PosInf
      | (NegInf, _) \<Rightarrow> NegInf
      | (_, NegInf) \<Rightarrow> NegInf)"

definition ieee_sub :: "pyfloat \<Rightarrow> pyfloat \<Rightarrow> pyfloat" where
  "ieee_sub a b = ieee_add a (float_neg b)"

text \<open>
  \<^verbatim>\<open>x ** 2\<close> on a Python float: the square rounded to the nearest double, and
  OverflowError when the square of a finite number rounds to infinity. (Python calls the
  C library's \<^verbatim>\<open>pow\<close>, which is specified only up to an error in the last place:
  \<open>ieee_ops\<close> is the arithmetic in which it rounds correctly.)
\<close>

definition py_pow2 :: "pyfloat \<Rightarrow> exn + pyfloat" where
  "py_pow2 a =
     (case a of
        NaN \<Rightarrow> Inr NaN
      | NegInf \<Rightarrow> Inr PosInf
      | PosInf \<Rightarrow> Inr PosInf
      | Finite m e \<Rightarrow>
          (case round_double (m * m) (2 * e) of
             Finite r qe \<Rightarrow> Inr (Finite r qe)
           | _ \<Rightarrow> Inl OverflowError))"

text \<open>\<^verbatim>\<open>np.sqrt\<close>: not a number below zero (with a warning, no exception).\<close>

definition ieee_sqrt :: "pyfloat \<Rightarrow> pyfloat" where
  "ieee_sqrt a =
     (case a of
        NaN \<Rightarrow> NaN
      | NegInf \<Rightarrow> NaN
      | PosInf \<Rightarrow> PosInf
      | Finite m e \<Rightarrow>
          if m < 0 then NaN else if m = 0 then Finite 0 0 else sqrt_double m e)"

definition ieee_ops :: float_ops where
  "ieee_ops = \<lparr> fsub = ieee_sub, fadd = ieee_add, fpow2 = py_pow2, fsqrt = ieee_sqrt \<rparr>"

subsection \<open>The exact value of a double\<close>

definition pow2 :: "int \<Rightarrow> rat" where
  "pow2 e = (if 0 \<le> e then 2 ^ nat e else 1 / 2 ^ nat (- e))"

definition float_value :: "int \<Rightarrow> int \<Rightarrow> rat" where
  "float_value m e = of_int m * pow2 e"

section \<open>Python values and dictionaries\<close>

text \<open>
  The backend keeps its state in a Python dictionary whose values are JSON-like: the
  payloads of the controller are decoded by \<^verbatim>\<open>json.loads\<close> and stored as they come.
  A dictionary is an association list: \<open>AList.update\<close> overwrites the value of a key
  that is present and appends a key that is not, which is what assignment to a key of a
  Python \<^verbatim>\<open>dict\<close> does (insertion order is kept).
\<close>

datatype pyval =
    PNone
  | PBool bool
  | PInt int
  | PFloat pyfloat
  | PStr string
  | PList "pyval list"
  | PDict "(string \<times> pyval) list"

type_synonym pydict = "(string \<times> pyval) list"

text \<open>\<^verbatim>\<open>d[k]\<close>: raises KeyError when the key is absent.\<close>

definition dict_index :: "pydict \<Rightarrow> string \<Rightarrow> exn + pyval" where
  "dict_index d k = (case map_of d k of None \<Rightarrow> Inl KeyError | Some v \<Rightarrow> Inr v)"

text \<open>\<^verbatim>\<open>d.get(k, default)\<close>.\<close>

definition dict_get :: "pydict \<Rightarrow> string \<Rightarrow> pyval \<Rightarrow> pyval" where
  "dict_get d k dflt = (case map_of d k of None \<Rightarrow> dflt | Some v \<Rightarrow> v)"

text \<open>\<^verbatim>\<open>d[k] = v\<close>.\<close>

definition dict_set :: "pydict \<Rightarrow> string \<Rightarrow> pyval \<Rightarrow> pydict" where
  "dict_set d k v = AList.update k v d"

text \<open>\<^verbatim>\<open>d.update(other)\<close>: every item of \<open>other\<close> is assigned in turn.\<close>

definition dict_update :: "pydict \<Rightarrow> pydict \<Rightarrow> pydict" where
  "dict_update d other = fold (\<lambda>(k, v) acc. dict_set acc k v) other d"

definition dict_keys :: "pydict \<Rightarrow> string list" where
  "dict_keys d = map fst d"

section \<open>Formatting\<close>

text \<open>
  \<^verbatim>\<open>str\<close> of a Python \<^verbatim>\<open>int\<close>, as an f-string writes it: decimal digits, a minus
  sign before a negative number.
\<close>

definition digit_char :: "nat \<Rightarrow> char" where
  "digit_char n = ''0123456789'' ! n"

fun nat_digits :: "nat \<Rightarrow> string" where
  "nat_digits n =
     (if n < 10 then [digit_char n] else nat_digits (n div 10) @ [digit_char (n mod 10)])"

declare nat_digits.simps [simp del]

definition py_str_int :: "int \<Rightarrow> string" where
  "py_str_int i = (if i < 0 then CHR ''-'' # nat_digits (nat (- i)) else nat_digits (nat i))"

text \<open>\<^verbatim>\<open>str.upper\<close> on ASCII text (the only text the code applies it to).\<close>

definition char_upper :: "char \<Rightarrow> char" where
  "char_upper c =
     (let n = (of_char c :: nat) in if 97 \<le> n \<and> n \<le> 122 then char_of (n - 32) else c)"

definition py_upper :: "string \<Rightarrow> string" where
  "py_upper s = map char_upper s"

section \<open>The vision tracker (vision_tracking.py, VisionTracker)\<close>

text \<open>
  A detection is the dictionary \<^verbatim>\<open>_process_detections\<close> builds; its keys are the
  fields of the record.
\<close>

record detection =
  id_det :: int
  class_id :: int
  class_name :: string
  confidence :: pyfloat
  bbox :: "int list"
  center :: "int \<times> int"
  relative_position :: "pyfloat \<times> pyfloat"
  size_det :: "int \<times> int"
  timestamp :: pyfloat

record vision_tracker =
  is_running :: bool
  detection_callback :: bool
  detections :: "detection list"

text \<open>\<^verbatim>\<open>VisionTracker.__init__\<close>.\<close>

definition init_vision_tracker :: vision_tracker where
  "init_vision_tracker = \<lparr> is_running = False, detection_callback = False, detections = [] \<rparr>"

text \<open>\<^verbatim>\<open>get_detections\<close>: a copy of the current list.\<close>

definition get_detections :: "vision_tracker \<Rightarrow> detection list" where
  "get_detections self = detections self"

text \<open>
  The distance computed in the loop of \<^verbatim>\<open>find_closest_object\<close>:
  \<^verbatim>\<open>np.sqrt((rel_x - target_position[0])**2 + (rel_y - target_position[1])**2)\<close>,
  in floats, the left square first; an OverflowError of \<^verbatim>\<open>**\<close> leaves the
  expression.
\<close>

definition distance_to :: "float_ops \<Rightarrow> pyfloat \<times> pyfloat \<Rightarrow> detection \<Rightarrow> exn + pyfloat" where
  "distance_to ops target_position d =
     (let (rel_x, rel_y) = relative_position d in
      case fpow2 ops (fsub ops rel_x (fst target_position)) of
        Inl e \<Rightarrow> Inl e
      | Inr sx \<Rightarrow>
          (case fpow2 ops (fsub ops rel_y (snd target_position)) of
             Inl e \<Rightarrow> Inl e
           | Inr sy \<Rightarrow> Inr (fsqrt ops (fadd ops sx sy))))"

text \<open>
  The loop of \<^verbatim>\<open>find_closest_object\<close>: \<open>min_distance\<close> and \<open>closest_object\<close>
  are the loop's variables, the test is \<^verbatim>\<open>distance < min_distance\<close> on floats, and an
  exception of the distance leaves the loop.
\<close>

fun closest_scan ::
  "float_ops \<Rightarrow> detection list \<Rightarrow> pyfloat \<times> pyfloat \<Rightarrow> pyfloat \<Rightarrow> detection option
     \<Rightarrow> exn + detection option"
where
  "closest_scan ops [] target_position min_distance closest_object = Inr closest_object"
| "closest_scan ops (d # ds) target_position min_distance closest_object =
     (case distance_to ops target_position d of
        Inl e \<Rightarrow> Inl e
      | Inr distance \<Rightarrow>
          if float_less distance min_distance
          then closest_scan ops ds target_position distance (Some d)
          else closest_scan ops ds target_position min_distance closest_object)"

definition default_target_position :: "pyfloat \<times> pyfloat" where
  "default_target_position = (Finite 1 (- 1), Finite 1 (- 1))"

text \<open>
  \<^verbatim>\<open>find_closest_object(target_position=(0.5, 0.5))\<close>: the argument is optional, and a
  call without it (\<open>None\<close> here) takes the default. \<open>min_distance\<close> starts as
  \<^verbatim>\<open>float('inf')\<close> and \<open>closest_object\<close> as \<^verbatim>\<open>None\<close>.
\<close>

definition find_closest_object ::
  "float_ops \<Rightarrow> vision_tracker \<Rightarrow> (pyfloat \<times> pyfloat) option \<Rightarrow> exn + detection option"
where
  "find_closest_object ops self arg =
     (let target_position = (case arg of None \<Rightarrow> default_target_position | Some t \<Rightarrow> t);
          dets = get_detections self
      in if dets = [] then Inr None
         else closest_scan ops dets target_position PosInf None)"

text \<open>
  The exact Euclidean distance between a target and the relative position of a
  detection (both finite; there is none otherwise), which is not the distance the code
  computes, and what it is for one detection to be strictly nearer to the target than
  another.
\<close>

definition exact_distance :: "pyfloat \<times> pyfloat \<Rightarrow> detection \<Rightarrow> real option" where
  "exact_distance target_position d =
     (case (fst target_position, snd target_position,
            fst (relative_position d), snd (relative_position d)) of
        (Finite tm te, Finite um ue, Finite xm xe, Finite ym ye) \<Rightarrow>
          Some (sqrt (of_rat ((float_value xm xe - float_value tm te) ^ 2
                            + (float_value ym ye - float_value um ue) ^ 2)))
      | _ \<Rightarrow> None)"

definition strictly_nearer :: "pyfloat \<times> pyfloat \<Rightarrow> detection \<Rightarrow> detection \<Rightarrow> bool" where
  "strictly_nearer target_position a b =
     (case (exact_distance target_position a, exact_distance target_position b) of
        (Some x, Some y) \<Rightarrow> x < y
      | _ \<Rightarrow> False)"

text \<open>The detection as the JSON-like value that is stored and broadcast.\<close>

definition detection_dict :: "detection \<Rightarrow> pyval" where
  "detection_dict d =
     PDict [(''id'', PInt (id_det d)),
            (''class_id'', PInt (class_id d)),
            (''class_name'', PStr (class_name d)),
            (''confidence'', PFloat (confidence d)),
            (''bbox'', PList (map PInt (bbox d))),
            (''center'', PList [PInt (fst (center d)), PInt (snd (center d))]),
            (''relative_position'',
               PList [PFloat (fst (relative_position d)), PFloat (snd (relative_position d))]),
            (''size'', PList [PInt (fst (size_det d)), PInt (snd (size_det d))]),
            (''timestamp'', PFloat (timestamp d))]"

section \<open>The backend state (main.py, SmartArmBackend)\<close>

text \<open>
  The MQTT client is the paho library's; of it the model keeps the topics subscribed to
  and what was published, as (topic, text) pairs in order. A websocket connection is the
  websockets library's: it is open or closed, and it keeps what was sent on it (the
  argument of \<^verbatim>\<open>json.dumps\<close>, before it is written as text). Both are external; only
  \<^verbatim>\<open>subscribe\<close>, \<^verbatim>\<open>publish\<close> and \<^verbatim>\<open>send\<close> are used by the code modelled
  here.
\<close>

record mqtt_conn =
  subscribed :: "string list"
  published :: "(string \<times> string) list"

record ws_conn =
  closed :: bool
  received :: "pyval list"

type_synonym ws_id = nat

datatype task = Broadcast_status | Broadcast_detections pyval

text \<open>
  \<open>websocket_clients\<close> is a Python set; the list holds its members in the order a
  \<^verbatim>\<open>for\<close> loop meets them. \<open>sockets\<close> is the store of the connection objects the
  members refer to. \<open>tasks\<close> are the coroutines handed to \<^verbatim>\<open>asyncio.create_task\<close>.
  \<open>data_logger\<close> holds the calls of \<^verbatim>\<open>log_operation\<close> made by the backend: the
  mode, the number of objects and the detection passed.
\<close>

record backend =
  vision_tracker :: vision_tracker
  data_logger :: "(pyval \<times> nat \<times> detection) list"
  system_status :: pydict
  mqtt_client :: "mqtt_conn option"
  websocket_clients :: "ws_id list"
  sockets :: "ws_id \<Rightarrow> ws_conn"
  tasks :: "task list"

definition default_servos :: pyval where
  "default_servos = PList [PInt 90, PInt 90, PInt 90, PInt 90, PInt 90]"

text \<open>\<^verbatim>\<open>SmartArmBackend.__init__\<close>.\<close>

definition init_backend :: "(ws_id \<Rightarrow> ws_conn) \<Rightarrow> backend" where
  "init_backend socks =
     \<lparr> vision_tracker = init_vision_tracker,
       data_logger = [],
       system_status =
         [(''mode'', PStr ''auto''),
          (''vision_active'', PBool False),
          (''mqtt_connected'', PBool False),
          (''last_detection'', PNone),
          (''servo_angles'', default_servos),
          (''distance_cm'', PFloat (Finite 0 0)),
          (''motor_speed'', PInt 0),
          (''grab_count'', PInt 0),
          (''error_message'', PStr '''')],
       mqtt_client = None,
       websocket_clients = [],
       sockets = socks,
       tasks = [] \<rparr>"

text \<open>
  \<^verbatim>\<open>asyncio.create_task(coro)\<close> raises RuntimeError when the calling thread has no
  running event loop (\<open>loop = False\<close>); otherwise the task is scheduled.
\<close>

definition create_task :: "bool \<Rightarrow> task \<Rightarrow> backend \<Rightarrow> exn + backend" where
  "create_task loop t self =
     (if loop then Inr (self\<lparr>tasks := tasks self @ [t]\<rparr>) else Inl RuntimeError)"

text \<open>
  An inbound MQTT message. \<open>payload\<close> is the result of
  \<^verbatim>\<open>json.loads(msg.payload.decode())\<close>, \<open>None\<close> when decoding raises.
\<close>

record mqtt_msg =
  topic :: string
  payload :: "pyval option"

text \<open>
  \<^verbatim>\<open>on_mqtt_message\<close>. The payload is decoded before the topic is looked at; every
  exception (a payload that does not decode, a payload that is not an object and so has
  no \<^verbatim>\<open>get\<close>, \<^verbatim>\<open>create_task\<close> without a running loop) is caught and logged, and
  what was written before it stays written.
\<close>

definition on_mqtt_message :: "bool \<Rightarrow> backend \<Rightarrow> mqtt_msg \<Rightarrow> backend" where
  "on_mqtt_message loop self msg =
     (case payload msg of
        None \<Rightarrow> self
      | Some p \<Rightarrow>
          if topic msg = ''smartarm/status'' then
            (case p of
               PDict kvs \<Rightarrow>
                 let self1 = self\<lparr>system_status :=
                       dict_update (system_status self)
                         [(''servo_angles'', dict_get kvs ''servos'' default_servos),
                          (''distance_cm'', dict_get kvs ''distance'' (PFloat (Finite 0 0))),
                          (''motor_speed'', dict_get kvs ''motor_speed'' (PInt 0))]\<rparr>
                 in (case create_task loop Broadcast_status self1 of
                       Inl e \<Rightarrow> self1
                     | Inr self2 \<Rightarrow> self2)
             | _ \<Rightarrow> self)
          else self)"

subsection \<open>The MQTT link\<close>

definition subscribe :: "mqtt_conn \<Rightarrow> string \<Rightarrow> mqtt_conn" where
  "subscribe c t = c\<lparr>subscribed := subscribed c @ [t]\<rparr>"

definition publish :: "mqtt_conn \<Rightarrow> string \<Rightarrow> string \<Rightarrow> mqtt_conn" where
  "publish c t text = c\<lparr>published := published c @ [(t, text)]\<rparr>"

text \<open>
  \<^verbatim>\<open>initialize_mqtt\<close>: the client is created and assigned before the connection is
  tried, so it stays assigned when \<^verbatim>\<open>connect\<close> raises (\<open>connect_ok = False\<close>) and
  the function returns \<^verbatim>\<open>False\<close>.
\<close>

definition initialize_mqtt :: "backend \<Rightarrow> bool \<Rightarrow> bool \<times> backend" where
  "initialize_mqtt self connect_ok =
     (connect_ok, self\<lparr>mqtt_client := Some \<lparr>subscribed = [], published = []\<rparr>\<rparr>)"

text \<open>
  \<^verbatim>\<open>initialize\<close>: \<open>vision_ok\<close> is the result of \<^verbatim>\<open>vision_tracker.initialize()\<close>
  (the model and the camera, both external).
\<close>

definition initialize :: "backend \<Rightarrow> bool \<Rightarrow> bool \<Rightarrow> bool \<times> backend" where
  "initialize self vision_ok connect_ok =
     (if \<not> vision_ok then (False, self)
      else
        let self1 = self\<lparr>vision_tracker := (vision_tracker self)\<lparr>detection_callback := True\<rparr>\<rparr>;
            (ok, self2) = initialize_mqtt self1 connect_ok
        in if \<not> ok then (False, self2) else (True, self2))"

text \<open>
  \<^verbatim>\<open>on_mqtt_connect\<close>: the \<^verbatim>\<open>client\<close> passed by the library is the backend's own
  client.
\<close>

definition on_mqtt_connect :: "backend \<Rightarrow> int \<Rightarrow> backend" where
  "on_mqtt_connect self rc =
     (if rc = 0 then
        self\<lparr>system_status := dict_set (system_status self) ''mqtt_connected'' (PBool True),
             mqtt_client := map_option (\<lambda>c. subscribe c ''smartarm/status'') (mqtt_client self)\<rparr>
      else
        self\<lparr>system_status := dict_set (system_status self) ''mqtt_connected'' (PBool False)\<rparr>)"

definition on_mqtt_disconnect :: "backend \<Rightarrow> backend" where
  "on_mqtt_disconnect self =
     self\<lparr>system_status := dict_set (system_status self) ''mqtt_connected'' (PBool False)\<rparr>"

subsection \<open>Commands\<close>

text \<open>\<^verbatim>\<open>self.system_status['mode']\<close>.\<close>

definition mode_of :: "backend \<Rightarrow> exn + pyval" where
  "mode_of self = dict_index (system_status self) ''mode''"

text \<open>\<^verbatim>\<open>set_mode\<close>.\<close>

definition set_mode :: "backend \<Rightarrow> string \<Rightarrow> backend" where
  "set_mode self mode =
     (if mode \<in> set [''auto'', ''manual''] then
        let self1 = self\<lparr>system_status := dict_set (system_status self) ''mode'' (PStr mode)\<rparr>
        in (case mqtt_client self1 of
              Some c \<Rightarrow>
                self1\<lparr>mqtt_client :=
                  Some (publish c ''smartarm/control'' (''MODE '' @ py_upper mode))\<rparr>
            | None \<Rightarrow> self1)
      else self)"

text \<open>
  \<^verbatim>\<open>manual_servo_control\<close> and \<^verbatim>\<open>manual_motor_control\<close>. Reading
  \<^verbatim>\<open>system_status['mode']\<close> raises KeyError when the key is absent; the result is the
  exception or the returned boolean, with the state after the call.
\<close>

definition manual_servo_control :: "backend \<Rightarrow> int \<Rightarrow> int \<Rightarrow> (exn + bool) \<times> backend" where
  "manual_servo_control self servo_id angle =
     (case dict_index (system_status self) ''mode'' of
        Inl e \<Rightarrow> (Inl e, self)
      | Inr m \<Rightarrow>
          if m \<noteq> PStr ''manual'' then (Inr False, self)
          else
            (case mqtt_client self of
               Some c \<Rightarrow>
                 (Inr True,
                  self\<lparr>mqtt_client :=
                    Some (publish c ''smartarm/control''
                            (''SERVO '' @ py_str_int servo_id @ '' '' @ py_str_int angle))\<rparr>)
             | None \<Rightarrow> (Inr False, self)))"

definition manual_motor_control :: "backend \<Rightarrow> int \<Rightarrow> (exn + bool) \<times> backend" where
  "manual_motor_control self speed =
     (case dict_index (system_status self) ''mode'' of
        Inl e \<Rightarrow> (Inl e, self)
      | Inr m \<Rightarrow>
          if m \<noteq> PStr ''manual'' then (Inr False, self)
          else
            (case mqtt_client self of
               Some c \<Rightarrow>
                 (Inr True,
                  self\<lparr>mqtt_client :=
                    Some (publish c ''smartarm/control'' (''MOTOR '' @ py_str_int speed))\<rparr>)
             | None \<Rightarrow> (Inr False, self)))"

text \<open>\<^verbatim>\<open>emergency_stop\<close> and \<^verbatim>\<open>move_to_home\<close>.\<close>

definition emergency_stop :: "backend \<Rightarrow> bool \<times> backend" where
  "emergency_stop self =
     (case mqtt_client self of
        Some c \<Rightarrow> (True, self\<lparr>mqtt_client := Some (publish c ''smartarm/control'' ''STOP'')\<rparr>)
      | None \<Rightarrow> (False, self))"

definition move_to_home :: "backend \<Rightarrow> bool \<times> backend" where
  "move_to_home self =
     (case mqtt_client self of
        Some c \<Rightarrow> (True, self\<lparr>mqtt_client := Some (publish c ''smartarm/control'' ''HOME'')\<rparr>)
      | None \<Rightarrow> (False, self))"

subsection \<open>Subscribers\<close>

text \<open>
  \<^verbatim>\<open>websocket.send(message)\<close>: raises ConnectionClosed on a closed connection,
  otherwise the message is delivered.
\<close>

definition send :: "ws_id \<Rightarrow> pyval \<Rightarrow> backend \<Rightarrow> exn + backend" where
  "send ws message self =
     (if closed (sockets self ws) then Inl ConnectionClosed
      else Inr (self\<lparr>sockets := (sockets self)
                  (ws := (sockets self ws)\<lparr>received := received (sockets self ws) @ [message]\<rparr>)\<rparr>))"

definition status_message :: "backend \<Rightarrow> pyval" where
  "status_message self = PDict [(''type'', PStr ''status''), (''data'', PDict (system_status self))]"

definition detections_message :: "pyval \<Rightarrow> pyval" where
  "detections_message dets = PDict [(''type'', PStr ''detections''), (''data'', dets)]"

text \<open>\<^verbatim>\<open>set.add\<close> and \<^verbatim>\<open>set.discard\<close> on the subscriber set.\<close>

definition set_add :: "ws_id list \<Rightarrow> ws_id \<Rightarrow> ws_id list" where
  "set_add cs ws = (if ws \<in> set cs then cs else cs @ [ws])"

definition set_discard :: "ws_id list \<Rightarrow> ws_id \<Rightarrow> ws_id list" where
  "set_discard cs ws = filter (\<lambda>c. c \<noteq> ws) cs"

text \<open>
  \<^verbatim>\<open>websocket_handler\<close>, in two steps. On accepting the connection the subscriber is
  added and sent the current status; when that raises, the \<^verbatim>\<open>finally\<close> clause
  discards it. When the connection ends, the \<^verbatim>\<open>finally\<close> clause discards it.
\<close>

definition websocket_handler_open :: "backend \<Rightarrow> ws_id \<Rightarrow> backend" where
  "websocket_handler_open self websocket =
     (let self1 = self\<lparr>websocket_clients := set_add (websocket_clients self) websocket\<rparr>
      in case send websocket (status_message self1) self1 of
           Inl e \<Rightarrow> self1\<lparr>websocket_clients := set_discard (websocket_clients self1) websocket\<rparr>
         | Inr self2 \<Rightarrow> self2)"

definition websocket_handler_close :: "backend \<Rightarrow> ws_id \<Rightarrow> backend" where
  "websocket_handler_close self websocket =
     self\<lparr>websocket_clients := set_discard (websocket_clients self) websocket\<rparr>"

text \<open>
  The loop of \<^verbatim>\<open>broadcast_status\<close> and \<^verbatim>\<open>broadcast_detections\<close>: each client
  is sent the message; ConnectionClosed is caught and the client noted in
  \<open>disconnected\<close>; any other exception leaves the loop (first component \<open>Some\<close>).
\<close>

fun broadcast_loop ::
  "ws_id list \<Rightarrow> pyval \<Rightarrow> ws_id list \<Rightarrow> backend \<Rightarrow> exn option \<times> ws_id list \<times> backend"
where
  "broadcast_loop [] message disconnected self = (None, disconnected, self)"
| "broadcast_loop (client # clients) message disconnected self =
     (case send client message self of
        Inl ConnectionClosed \<Rightarrow> broadcast_loop clients message (disconnected @ [client]) self
      | Inl e \<Rightarrow> (Some e, disconnected, self)
      | Inr self1 \<Rightarrow> broadcast_loop clients message disconnected self1)"

text \<open>\<^verbatim>\<open>self.websocket_clients -= disconnected\<close>.\<close>

definition set_minus :: "ws_id list \<Rightarrow> ws_id list \<Rightarrow> ws_id list" where
  "set_minus cs disconnected = filter (\<lambda>c. c \<notin> set disconnected) cs"

definition broadcast :: "backend \<Rightarrow> pyval \<Rightarrow> exn option \<times> backend" where
  "broadcast self message =
     (case broadcast_loop (websocket_clients self) message [] self of
        (Some e, disconnected, self1) \<Rightarrow> (Some e, self1)
      | (None, disconnected, self1) \<Rightarrow>
          (None, self1\<lparr>websocket_clients := set_minus (websocket_clients self1) disconnected\<rparr>))"

definition broadcast_status :: "backend \<Rightarrow> exn option \<times> backend" where
  "broadcast_status self =
     (if websocket_clients self \<noteq> [] then broadcast self (status_message self)
      else (None, self))"

definition broadcast_detections :: "backend \<Rightarrow> pyval \<Rightarrow> exn option \<times> backend" where
  "broadcast_detections self dets =
     (if websocket_clients self \<noteq> [] then broadcast self (detections_message dets)
      else (None, self))"

subsection \<open>Vision\<close>

text \<open>
  \<^verbatim>\<open>on_vision_detection\<close>: \<open>now\<close> is \<^verbatim>\<open>datetime.now().isoformat()\<close>. Nothing is
  caught here: an exception leaves the function with what was written before it
  (first component \<open>Some\<close>).
\<close>

definition on_vision_detection ::
  "float_ops \<Rightarrow> bool \<Rightarrow> string \<Rightarrow> backend \<Rightarrow> detection list \<Rightarrow> exn option \<times> backend"
where
  "on_vision_detection ops loop now self dets =
     (let objects = PList (map detection_dict dets);
          self1 = self\<lparr>system_status := dict_set (system_status self) ''last_detection''
                    (PDict [(''timestamp'', PStr now),
                            (''count'', PInt (int (length dets))),
                            (''objects'', objects)])\<rparr>;
          logged =
            (if dets \<noteq> [] then
               (case find_closest_object ops (vision_tracker self1) None of
                  Inl e \<Rightarrow> Inl e
                | Inr (Some closest_obj) \<Rightarrow>
                    (case dict_index (system_status self1) ''mode'' of
                       Inl e \<Rightarrow> Inl e
                     | Inr m \<Rightarrow>
                         Inr (self1\<lparr>data_logger :=
                                data_logger self1 @ [(m, length dets, closest_obj)]\<rparr>))
                | Inr None \<Rightarrow> Inr self1)
             else Inr self1)
      in case logged of
           Inl e \<Rightarrow> (Some e, self1)
         | Inr self2 \<Rightarrow>
             (case create_task loop (Broadcast_detections objects) self2 of
                Inl e \<Rightarrow> (Some e, self2)
              | Inr self3 \<Rightarrow> (None, self3)))"

text \<open>
  One turn of \<^verbatim>\<open>_tracking_loop\<close>: \<open>result\<close> is what capture and inference gave,
  \<open>None\<close> when the frame could not be read or inference raised. The detections are
  stored, and the callback is called when it is set and there are detections; what it
  raises is caught by the loop.
\<close>

definition tracking_cycle ::
  "float_ops \<Rightarrow> bool \<Rightarrow> string \<Rightarrow> backend \<Rightarrow> detection list option \<Rightarrow> backend"
where
  "tracking_cycle ops loop now self result =
     (case result of
        None \<Rightarrow> self
      | Some dets \<Rightarrow>
          let self1 = self\<lparr>vision_tracker := (vision_tracker self)\<lparr>detections := dets\<rparr>\<rparr>
          in if detection_callback (vision_tracker self1) \<and> dets \<noteq> []
             then snd (on_vision_detection ops loop now self1 dets)
             else self1)"

definition start_vision_tracking :: "backend \<Rightarrow> backend" where
  "start_vision_tracking self =
     self\<lparr>vision_tracker := (vision_tracker self)\<lparr>is_running := True\<rparr>,
          system_status := dict_set (system_status self) ''vision_active'' (PBool True)\<rparr>"

definition stop_vision_tracking :: "backend \<Rightarrow> backend" where
  "stop_vision_tracking self =
     self\<lparr>vision_tracker := (vision_tracker self)\<lparr>is_running := False\<rparr>,
          system_status := dict_set (system_status self) ''vision_active'' (PBool False)\<rparr>"

subsection \<open>Runs of the backend\<close>

text \<open>
  The operations of the backend as events; a run applies them in order, starting from
  the state \<^verbatim>\<open>__init__\<close> builds. \<open>Socket_closed\<close> is the peer closing a connection.
  \<open>ops\<close> is the float arithmetic of the platform.
\<close>

datatype event =
    Initialize bool bool
  | On_mqtt_connect int
  | On_mqtt_message bool mqtt_msg
  | On_mqtt_disconnect
  | On_vision_detection bool string "detection list"
  | Tracking_cycle bool string "detection list option"
  | Set_mode string
  | Manual_servo_control int int
  | Manual_motor_control int
  | Emergency_stop
  | Move_to_home
  | Websocket_open ws_id
  | Websocket_close ws_id
  | Socket_closed ws_id
  | Run_broadcast_status
  | Run_broadcast_detections pyval
  | Start_vision_tracking
  | Stop_vision_tracking

fun step :: "float_ops \<Rightarrow> event \<Rightarrow> backend \<Rightarrow> backend" where
  "step ops (Initialize v c) self = snd (initialize self v c)"
| "step ops (On_mqtt_connect rc) self = on_mqtt_connect self rc"
| "step ops (On_mqtt_message loop msg) self = on_mqtt_message loop self msg"
| "step ops On_mqtt_disconnect self = on_mqtt_disconnect self"
| "step ops (On_vision_detection loop now dets) self = snd (on_vision_detection ops loop now self dets)"
| "step ops (Tracking_cycle loop now r) self = tracking_cycle ops loop now self r"
| "step ops (Set_mode m) self = set_mode self m"
| "step ops (Manual_servo_control i a) self = snd (manual_servo_control self i a)"
| "step ops (Manual_motor_control v) self = snd (manual_motor_control self v)"
| "step ops Emergency_stop self = snd (emergency_stop self)"
| "step ops Move_to_home self = snd (move_to_home self)"
| "step ops (Websocket_open ws) self = websocket_handler_open self ws"
| "step ops (Websocket_close ws) self = websocket_handler_close self ws"
| "step ops (Socket_closed ws) self =
     self\<lparr>sockets := (sockets self)(ws := (sockets self ws)\<lparr>closed := True\<rparr>)\<rparr>"
| "step ops Run_broadcast_status self = snd (broadcast_status self)"
| "step ops (Run_broadcast_detections dets) self = snd (broadcast_detections self dets)"
| "step ops Start_vision_tracking self = start_vision_tracking self"
| "step ops Stop_vision_tracking self = stop_vision_tracking self"

definition run :: "float_ops \<Rightarrow> event list \<Rightarrow> backend \<Rightarrow> backend" where
  "run ops evs self = fold (step ops) evs self"

definition is_set_mode :: "event \<Rightarrow> bool" where
  "is_set_mode e = (case e of Set_mode m \<Rightarrow> True | _ \<Rightarrow> False)"

section \<open>Example data\<close>

text \<open>The payload \<^verbatim>\<open>{"servos":[10,20,30,40,50],"distance":12.5,"motor_speed":3}\<close>.\<close>

definition status_payload :: pydict where
  "status_payload =
     [(''servos'', PList [PInt 10, PInt 20, PInt 30, PInt 40, PInt 50]),
      (''distance'', PFloat (Finite 25 (- 1))),
      (''motor_speed'', PInt 3)]"

definition status_msg :: "pydict \<Rightarrow> mqtt_msg" where
  "status_msg kvs = \<lparr> topic = ''smartarm/status'', payload = Some (PDict kvs) \<rparr>"

text \<open>Sockets 1 and 3 are open, every other one is closed; nothing was sent yet.\<close>

definition example_sockets :: "ws_id \<Rightarrow> ws_conn" where
  "example_sockets ws = \<lparr> closed = (ws \<noteq> 1 \<and> ws \<noteq> 3), received = [] \<rparr>"

text \<open>
  Detections at the relative positions \<open>(0.1, 0.1)\<close> and \<open>(0.9, 0.9)\<close>, as doubles:
  \<open>0.1\<close> is \<open>3602879701896397 / 2 ^ 55\<close> and \<open>0.9\<close> is
  \<open>8106479329266893 / 2 ^ 53\<close>.
\<close>

definition det_at :: "pyfloat \<times> pyfloat \<Rightarrow> detection" where
  "det_at p = \<lparr> id_det = 0, class_id = 39, class_name = ''bottle'',
                confidence = Finite 3 (- 2), bbox = [0, 0, 10, 10], center = (5, 5),
                relative_position = p, size_det = (10, 10), timestamp = Finite 0 0 \<rparr>"

definition example_tracker :: vision_tracker where
  "example_tracker =
     \<lparr> is_running = True, detection_callback = True,
       detections =
         [det_at (Finite 3602879701896397 (- 55), Finite 3602879701896397 (- 55)),
          det_at (Finite 8106479329266893 (- 53), Finite 8106479329266893 (- 53))] \<rparr>"

text \<open>
  Detections with centres \<open>(513, 3)\<close> and \<open>(1, 381)\<close> in a frame of 640 by 480:
  the relative positions are the doubles of \<open>513 / 640\<close>, \<open>3 / 480\<close> and of
  \<open>1 / 640\<close>, \<open>381 / 480\<close>.
\<close>

definition rounding_tracker :: vision_tracker where
  "rounding_tracker =
     \<lparr> is_running = True, detection_callback = True,
       detections =
         [det_at (Finite 3609916576314163 (- 52), Finite 3602879701896397 (- 59)),
          det_at (Finite 3602879701896397 (- 61), Finite 3574732204225331 (- 52))] \<rparr>"

text \<open>
  The backend after a successful \<^verbatim>\<open>initialize\<close> (mode \<open>auto\<close>, client set), and after
  \<^verbatim>\<open>set_mode('manual')\<close> on top of it.
\<close>

definition auto_state :: backend where
  "auto_state = snd (initialize (init_backend example_sockets) True True)"

definition manual_state :: backend where
  "manual_state = set_mode auto_state ''manual''"

text \<open>
  The backend after the payload above was applied, and a later payload that names
  \<open>distance\<close> only.
\<close>

definition updated_state :: backend where
  "updated_state = on_mqtt_message False auto_state (status_msg status_payload)"

definition partial_payload :: pydict where
  "partial_payload = [(''distance'', PFloat (Finite 3 (- 1)))]"

text \<open>
  Three subscribers connect on open sockets and are sent the status; then the peer of
  the second one closes its connection.
\<close>

definition open_sockets :: "ws_id \<Rightarrow> ws_conn" where
  "open_sockets ws = \<lparr> closed = False, received = [] \<rparr>"

definition three_subscribers :: backend where
  "three_subscribers =
     run ieee_ops [Websocket_open 1, Websocket_open 2, Websocket_open 3, Socket_closed 2]
       (init_backend open_sockets)"

section \<open>Facts about dictionaries\<close>

lemma map_of_dict_set:
  "map_of (dict_set d k v) = (map_of d)(k \<mapsto> v)"
  by (simp add: dict_set_def update_conv')

lemma map_of_dict_update3:
  "map_of (dict_update d [(k1, v1), (k2, v2), (k3, v3)])
     = (map_of d)(k1 \<mapsto> v1, k2 \<mapsto> v2, k3 \<mapsto> v3)"
  by (simp add: dict_update_def map_of_dict_set)

lemma status_on_mqtt_message:
  "system_status (on_mqtt_message loop self msg) =
     (case payload msg of
        Some (PDict kvs) \<Rightarrow>
          if topic msg = ''smartarm/status'' then
            dict_update (system_status self)
              [(''servo_angles'', dict_get kvs ''servos'' default_servos),
               (''distance_cm'', dict_get kvs ''distance'' (PFloat (Finite 0 0))),
               (''motor_speed'', dict_get kvs ''motor_speed'' (PInt 0))]
          else system_status self
      | _ \<Rightarrow> system_status self)"
  by (simp add: on_mqtt_message_def create_task_def Let_def
           split: option.splits pyval.splits)

section \<open>The inbound status message\<close>

text \<open>
  C1. A status message whose payload is an object with the three keys \<open>servos\<close>,
  \<open>distance\<close> and \<open>motor_speed\<close> sets \<open>servo_angles\<close>, \<open>distance_cm\<close> and
  \<open>motor_speed\<close> of the system status to the payload's values and leaves every other
  key of the system status, the MQTT client, the subscriber set and the sockets as they
  were.
\<close>

theorem C1_status_message_applied:
  assumes "payload msg = Some (PDict kvs)"
    and "topic msg = ''smartarm/status''"
    and "map_of kvs ''servos'' = Some sv"
    and "map_of kvs ''distance'' = Some d"
    and "map_of kvs ''motor_speed'' = Some ms"
  shows "map_of (system_status (on_mqtt_message loop self msg)) ''servo_angles'' = Some sv
       \<and> map_of (system_status (on_mqtt_message loop self msg)) ''distance_cm'' = Some d
       \<and> map_of (system_status (on_mqtt_message loop self msg)) ''motor_speed'' = Some ms
       \<and> (\<forall>k. k \<notin> {''servo_angles'', ''distance_cm'', ''motor_speed''} \<longrightarrow>
              map_of (system_status (on_mqtt_message loop self msg)) k
                = map_of (system_status self) k)
       \<and> mqtt_client (on_mqtt_message loop self msg) = mqtt_client self
       \<and> websocket_clients (on_mqtt_message loop self msg) = websocket_clients self
       \<and> sockets (on_mqtt_message loop self msg) = sockets self"
proof -
  have st: "map_of (system_status (on_mqtt_message loop self msg)) =
      (map_of (system_status self))
        (''servo_angles'' \<mapsto> sv, ''distance_cm'' \<mapsto> d, ''motor_speed'' \<mapsto> ms)"
    using assms by (simp add: status_on_mqtt_message map_of_dict_update3 dict_get_def)
  have rest: "mqtt_client (on_mqtt_message loop self msg) = mqtt_client self
       \<and> websocket_clients (on_mqtt_message loop self msg) = websocket_clients self
       \<and> sockets (on_mqtt_message loop self msg) = sockets self"
    by (simp add: on_mqtt_message_def create_task_def Let_def
          split: option.splits pyval.splits)
  show ?thesis
    unfolding st using rest by simp
qed

theorem C1_status_message_applied_witness:
  "payload (status_msg status_payload) = Some (PDict status_payload)
   \<and> topic (status_msg status_payload) = ''smartarm/status''
   \<and> map_of (system_status (on_mqtt_message False (init_backend example_sockets)
          (status_msg status_payload))) ''servo_angles''
        = Some (PList [PInt 10, PInt 20, PInt 30, PInt 40, PInt 50])
   \<and> map_of (system_status (on_mqtt_message False (init_backend example_sockets)
          (status_msg status_payload))) ''distance_cm'' = Some (PFloat (Finite 25 (- 1)))
   \<and> map_of (system_status (on_mqtt_message False (init_backend example_sockets)
          (status_msg status_payload))) ''motor_speed'' = Some (PInt 3)
   \<and> map_of (system_status (on_mqtt_message False (init_backend example_sockets)
          (status_msg status_payload))) ''mode'' = Some (PStr ''auto'')"
  using C1_status_message_applied
    [of "status_msg status_payload" status_payload
        "PList [PInt 10, PInt 20, PInt 30, PInt 40, PInt 50]" "PFloat (Finite 25 (- 1))" "PInt 3"
        False "init_backend example_sockets"]
  by (simp add: status_msg_def status_payload_def init_backend_def)

section \<open>The order of floats\<close>

lemma pow2_power_int: "pow2 e = power_int 2 e"
  by (simp add: pow2_def power_int_def inverse_eq_divide power_one_over)

lemma pow2_pos: "0 < pow2 e"
  by (simp add: pow2_def)

lemma pow2_add: "pow2 (a + b) = pow2 a * pow2 b"
  by (simp add: pow2_power_int power_int_add)

lemma pow2_nat: "pow2 (int n) = 2 ^ n"
  by (simp add: pow2_def)

text \<open>\<^verbatim>\<open><\<close> on finite floats is the order of their values.\<close>

lemma float_less_Finite:
  "float_less (Finite m1 e1) (Finite m2 e2) \<longleftrightarrow> float_value m1 e1 < float_value m2 e2"
proof -
  define e where "e = min e1 e2"
  define n1 where "n1 = nat (e1 - e)"
  define n2 where "n2 = nat (e2 - e)"
  have e1: "e1 = e + int n1" and e2: "e2 = e + int n2"
    by (simp_all add: n1_def n2_def e_def)
  have v1: "float_value m1 e1 = of_int (m1 * 2 ^ n1) * pow2 e"
    unfolding e1 by (simp add: float_value_def pow2_add pow2_nat)
  have v2: "float_value m2 e2 = of_int (m2 * 2 ^ n2) * pow2 e"
    unfolding e2 by (simp add: float_value_def pow2_add pow2_nat)
  have "float_less (Finite m1 e1) (Finite m2 e2) \<longleftrightarrow> m1 * 2 ^ n1 < m2 * 2 ^ n2"
    by (simp add: float_less_def n1_def n2_def e_def)
  also have "\<dots> \<longleftrightarrow> (of_int (m1 * 2 ^ n1) :: rat) < of_int (m2 * 2 ^ n2)"
    by (simp only: of_int_less_iff)
  also have "\<dots> \<longleftrightarrow> float_value m1 e1 < float_value m2 e2"
    unfolding v1 v2 using pow2_pos [of e] by (simp add: mult_less_cancel_right)
  finally show ?thesis .
qed

lemma float_less_simps:
  "float_less NaN b = False"
  "float_less a NaN = False"
  "float_less PosInf b = False"
  "float_less a NegInf = False"
  "float_less NegInf PosInf = True"
  "float_less NegInf (Finite m e) = True"
  "float_less (Finite m e) PosInf = True"
  by (simp_all add: float_less_def split: pyfloat.splits)

lemma float_less_trans:
  "float_less a b \<Longrightarrow> float_less b c \<Longrightarrow> float_less a c"
  by (cases a; cases b; cases c) (simp_all add: float_less_simps float_less_Finite)

lemma float_less_below:
  "float_less x m \<Longrightarrow> \<not> float_less v m \<Longrightarrow> v = NaN \<or> float_less x v"
  by (cases x; cases m; cases v) (simp_all add: float_less_simps float_less_Finite)

lemma float_less_irrefl: "\<not> float_less a a"
  by (cases a) (simp_all add: float_less_simps float_less_Finite)

section \<open>The closest object\<close>

text \<open>
  The scan with its two variables, when every distance computes (to \<open>dv y\<close> for the
  detection \<open>y\<close>): either the detection held so far stays, and then no distance in the
  list compares below the bound, or the result is an element of the list whose distance
  compares below the bound, below which no later distance compares, and every earlier
  distance is not a number or compares above it.
\<close>

lemma closest_scan_acc:
  assumes "\<forall>y\<in>set ds. distance_to ops t y = Inr (dv y)"
  shows "(closest_scan ops ds t m c = Inr c \<and> (\<forall>y\<in>set ds. \<not> float_less (dv y) m))
   \<or> (\<exists>pre x post. ds = pre @ x # post \<and> closest_scan ops ds t m c = Inr (Some x)
          \<and> float_less (dv x) m
          \<and> (\<forall>y\<in>set pre. dv y = NaN \<or> float_less (dv x) (dv y))
          \<and> (\<forall>y\<in>set post. \<not> float_less (dv y) (dv x)))"
  using assms
proof (induction ds arbitrary: m c)
  case Nil
  then show ?case by simp
next
  case (Cons d ds)
  from Cons.prems have dd: "distance_to ops t d = Inr (dv d)"
    and rest: "\<forall>y\<in>set ds. distance_to ops t y = Inr (dv y)"
    by simp_all
  show ?case
  proof (cases "float_less (dv d) m")
    case True
    have r: "closest_scan ops (d # ds) t m c = closest_scan ops ds t (dv d) (Some d)"
      using True by (simp add: dd)
    from Cons.IH [OF rest, of "dv d" "Some d"] show ?thesis
    proof
      assume a: "closest_scan ops ds t (dv d) (Some d) = Inr (Some d)
          \<and> (\<forall>y\<in>set ds. \<not> float_less (dv y) (dv d))"
      have "\<exists>pre x post. d # ds = pre @ x # post
          \<and> closest_scan ops (d # ds) t m c = Inr (Some x)
          \<and> float_less (dv x) m
          \<and> (\<forall>y\<in>set pre. dv y = NaN \<or> float_less (dv x) (dv y))
          \<and> (\<forall>y\<in>set post. \<not> float_less (dv y) (dv x))"
        by (rule exI [of _ "[]"], rule exI [of _ d], rule exI [of _ ds])
           (use a True r in simp)
      then show ?thesis by (rule disjI2)
    next
      assume "\<exists>pre x post. ds = pre @ x # post
          \<and> closest_scan ops ds t (dv d) (Some d) = Inr (Some x)
          \<and> float_less (dv x) (dv d)
          \<and> (\<forall>y\<in>set pre. dv y = NaN \<or> float_less (dv x) (dv y))
          \<and> (\<forall>y\<in>set post. \<not> float_less (dv y) (dv x))"
      then obtain pre x post where p: "ds = pre @ x # post"
          "closest_scan ops ds t (dv d) (Some d) = Inr (Some x)"
          "float_less (dv x) (dv d)"
          "\<forall>y\<in>set pre. dv y = NaN \<or> float_less (dv x) (dv y)"
          "\<forall>y\<in>set post. \<not> float_less (dv y) (dv x)"
        by (elim exE conjE)
      have xm: "float_less (dv x) m"
        using p(3) True by (rule float_less_trans)
      have "\<exists>pre x post. d # ds = pre @ x # post
          \<and> closest_scan ops (d # ds) t m c = Inr (Some x)
          \<and> float_less (dv x) m
          \<and> (\<forall>y\<in>set pre. dv y = NaN \<or> float_less (dv x) (dv y))
          \<and> (\<forall>y\<in>set post. \<not> float_less (dv y) (dv x))"
        by (rule exI [of _ "d # pre"], rule exI [of _ x], rule exI [of _ post])
           (use p xm r in simp)
      then show ?thesis by (rule disjI2)
    qed
  next
    case False
    have r: "closest_scan ops (d # ds) t m c = closest_scan ops ds t m c"
      using False by (simp add: dd)
    from Cons.IH [OF rest, of m c] show ?thesis
    proof
      assume "closest_scan ops ds t m c = Inr c \<and> (\<forall>y\<in>set ds. \<not> float_less (dv y) m)"
      with False r have "closest_scan ops (d # ds) t m c = Inr c
          \<and> (\<forall>y\<in>set (d # ds). \<not> float_less (dv y) m)"
        by simp
      then show ?thesis by (rule disjI1)
    next
      assume "\<exists>pre x post. ds = pre @ x # post
          \<and> closest_scan ops ds t m c = Inr (Some x)
          \<and> float_less (dv x) m
          \<and> (\<forall>y\<in>set pre. dv y = NaN \<or> float_less (dv x) (dv y))
          \<and> (\<forall>y\<in>set post. \<not> float_less (dv y) (dv x))"
      then obtain pre x post where p: "ds = pre @ x # post"
          "closest_scan ops ds t m c = Inr (Some x)"
          "float_less (dv x) m"
          "\<forall>y\<in>set pre. dv y = NaN \<or> float_less (dv x) (dv y)"
          "\<forall>y\<in>set post. \<not> float_less (dv y) (dv x)"
        by (elim exE conjE)
      have xd: "dv d = NaN \<or> float_less (dv x) (dv d)"
        using p(3) False by (rule float_less_below)
      have "\<exists>pre x post. d # ds = pre @ x # post
          \<and> closest_scan ops (d # ds) t m c = Inr (Some x)
          \<and> float_less (dv x) m
          \<and> (\<forall>y\<in>set pre. dv y = NaN \<or> float_less (dv x) (dv y))
          \<and> (\<forall>y\<in>set post. \<not> float_less (dv y) (dv x))"
        by (rule exI [of _ "d # pre"], rule exI [of _ x], rule exI [of _ post])
           (use p xd r in simp)
      then show ?thesis by (rule disjI2)
    qed
  qed
qed

text \<open>An exception of a distance is the result of the scan (the first one met).\<close>

lemma closest_scan_raises:
  "distance_to ops t d = Inl e \<Longrightarrow> closest_scan ops (d # ds) t m c = Inl e"
  by simp

text \<open>
  C2, as the code has it. On a non-empty detection list, every distance computing
  without an exception (to \<open>dv y\<close> for the detection \<open>y\<close>),
  \<open>find_closest_object\<close> returns the first detection whose computed distance is
  least: the distance it computes for that detection compares below infinity, the
  distance of every earlier detection is not a number or compares above it, and the
  distance of no later detection compares below it. When no computed distance compares
  below infinity, it returns nothing. Called without a target it uses \<open>(0.5, 0.5)\<close>.
  (For the positions \<open>(0.1, 0.1)\<close> and \<open>(0.9, 0.9)\<close> and the default target the two
  computed distances are the same double, and the first detection is returned.)
\<close>

theorem C2_find_closest_object_least_computed:
  assumes "detections self \<noteq> []"
    and "\<forall>y\<in>set (detections self). distance_to ops t y = Inr (dv y)"
  shows "((find_closest_object ops self (Some t) = Inr None
            \<and> (\<forall>y\<in>set (detections self). \<not> float_less (dv y) PosInf))
          \<or> (\<exists>pre x post. detections self = pre @ x # post
                \<and> find_closest_object ops self (Some t) = Inr (Some x)
                \<and> float_less (dv x) PosInf
                \<and> (\<forall>y\<in>set pre. dv y = NaN \<or> float_less (dv x) (dv y))
                \<and> (\<forall>y\<in>set post. \<not> float_less (dv y) (dv x))))
       \<and> find_closest_object ops self None
           = find_closest_object ops self (Some (Finite 1 (- 1), Finite 1 (- 1)))"
proof -
  have f: "find_closest_object ops self (Some t)
             = closest_scan ops (detections self) t PosInf None"
    using assms(1) by (simp add: find_closest_object_def get_detections_def)
  have d: "find_closest_object ops self None
           = find_closest_object ops self (Some (Finite 1 (- 1), Finite 1 (- 1)))"
    by (simp add: find_closest_object_def default_target_position_def)
  from closest_scan_acc [OF assms(2), of PosInf None] d show ?thesis
    unfolding f by (rule conjI)
qed

text \<open>
  The distances the code computes, by the arithmetic above, from the default target:
  \<open>0.5656854249492381\<close> for both \<open>(0.1, 0.1)\<close> and \<open>(0.9, 0.9)\<close>;
  \<open>0.5785576928070787\<close> for the centre \<open>(513, 3)\<close> and \<open>0.5785576928070786\<close> for
  the centre \<open>(1, 381)\<close>.
\<close>

lemmas float_eval = bitlen.simps isqrt.simps Let_def round_double_def sqrt_double_def
  float_neg_def ieee_add_def ieee_sub_def py_pow2_def ieee_sqrt_def ieee_ops_def
  distance_to_def det_at_def

lemma distance_01:
  "distance_to ieee_ops (Finite 1 (- 1), Finite 1 (- 1))
     (det_at (Finite 3602879701896397 (- 55), Finite 3602879701896397 (- 55)))
   = Inr (Finite 5095241338020619 (- 53))"
  by (simp add: float_eval split del: if_split)

lemma distance_09:
  "distance_to ieee_ops (Finite 1 (- 1), Finite 1 (- 1))
     (det_at (Finite 8106479329266893 (- 53), Finite 8106479329266893 (- 53)))
   = Inr (Finite 5095241338020619 (- 53))"
  by (simp add: float_eval split del: if_split)

lemma distance_513_3:
  "distance_to ieee_ops (Finite 1 (- 1), Finite 1 (- 1))
     (det_at (Finite 3609916576314163 (- 52), Finite 3602879701896397 (- 59)))
   = Inr (Finite 5211184419476587 (- 53))"
  by (simp add: float_eval split del: if_split)

lemma distance_1_381:
  "distance_to ieee_ops (Finite 1 (- 1), Finite 1 (- 1))
     (det_at (Finite 3602879701896397 (- 61), Finite 3574732204225331 (- 52)))
   = Inr (Finite 5211184419476586 (- 53))"
  by (simp add: float_eval split del: if_split)

text \<open>
  The detection the code returns need not be the one of least Euclidean distance: of the
  detections with centres \<open>(513, 3)\<close> and \<open>(1, 381)\<close> the first is strictly nearer
  to \<open>(0.5, 0.5)\<close>, and the second is returned, its computed distance being the lower.
  And a non-empty list can give nothing: with a target that is not a number no computed
  distance compares below infinity.
\<close>

theorem C2_least_euclidean_distance_counterexample:
  "detections rounding_tracker =
     [det_at (Finite 3609916576314163 (- 52), Finite 3602879701896397 (- 59)),
      det_at (Finite 3602879701896397 (- 61), Finite 3574732204225331 (- 52))]
   \<and> strictly_nearer (Finite 1 (- 1), Finite 1 (- 1))
        (det_at (Finite 3609916576314163 (- 52), Finite 3602879701896397 (- 59)))
        (det_at (Finite 3602879701896397 (- 61), Finite 3574732204225331 (- 52)))
   \<and> find_closest_object ieee_ops rounding_tracker None =
        Inr (Some (det_at (Finite 3602879701896397 (- 61), Finite 3574732204225331 (- 52))))
   \<and> find_closest_object ieee_ops rounding_tracker (Some (NaN, NaN)) = Inr None"
proof -
  have a: "detections rounding_tracker =
     [det_at (Finite 3609916576314163 (- 52), Finite 3602879701896397 (- 59)),
      det_at (Finite 3602879701896397 (- 61), Finite 3574732204225331 (- 52))]"
    by (simp add: rounding_tracker_def)
  have b: "strictly_nearer (Finite 1 (- 1), Finite 1 (- 1))
        (det_at (Finite 3609916576314163 (- 52), Finite 3602879701896397 (- 59)))
        (det_at (Finite 3602879701896397 (- 61), Finite 3574732204225331 (- 52)))"
    by (simp add: strictly_nearer_def exact_distance_def det_at_def float_value_def pow2_def
          power2_eq_square of_rat_less)
  have c: "find_closest_object ieee_ops rounding_tracker None =
        Inr (Some (det_at (Finite 3602879701896397 (- 61), Finite 3574732204225331 (- 52))))"
    by (simp add: find_closest_object_def get_detections_def a default_target_position_def
          distance_513_3 distance_1_381 float_less_def)
  have d: "find_closest_object ieee_ops rounding_tracker (Some (NaN, NaN)) = Inr None"
    by (simp add: find_closest_object_def get_detections_def a distance_to_def det_at_def
          ieee_ops_def ieee_sub_def ieee_add_def float_neg_def py_pow2_def ieee_sqrt_def
          float_less_def)
  from a b c d show ?thesis by (intro conjI)
qed

theorem C2_find_closest_object_least_computed_witness:
  "detections example_tracker \<noteq> []
   \<and> detections example_tracker =
        [det_at (Finite 3602879701896397 (- 55), Finite 3602879701896397 (- 55)),
         det_at (Finite 8106479329266893 (- 53), Finite 8106479329266893 (- 53))]
   \<and> distance_to ieee_ops (Finite 1 (- 1), Finite 1 (- 1))
         (det_at (Finite 3602879701896397 (- 55), Finite 3602879701896397 (- 55)))
        = Inr (Finite 5095241338020619 (- 53))
   \<and> distance_to ieee_ops (Finite 1 (- 1), Finite 1 (- 1))
         (det_at (Finite 8106479329266893 (- 53), Finite 8106479329266893 (- 53)))
        = Inr (Finite 5095241338020619 (- 53))
   \<and> find_closest_object ieee_ops example_tracker (Some (Finite 1 (- 1), Finite 1 (- 1)))
        = Inr (Some (det_at (Finite 3602879701896397 (- 55), Finite 3602879701896397 (- 55))))
   \<and> find_closest_object ieee_ops example_tracker None
        = Inr (Some (det_at (Finite 3602879701896397 (- 55), Finite 3602879701896397 (- 55))))"
proof -
  have ne: "detections example_tracker \<noteq> []"
    by (simp add: example_tracker_def)
  have dv: "\<forall>y\<in>set (detections example_tracker).
         distance_to ieee_ops (Finite 1 (- 1), Finite 1 (- 1)) y
           = Inr (Finite 5095241338020619 (- 53))"
    by (simp add: example_tracker_def distance_01 distance_09)
  note r = C2_find_closest_object_least_computed
    [OF ne, of ieee_ops "(Finite 1 (- 1), Finite 1 (- 1))"
       "\<lambda>y. Finite 5095241338020619 (- 53)", OF dv]
  have f: "find_closest_object ieee_ops example_tracker (Some (Finite 1 (- 1), Finite 1 (- 1)))
        = Inr (Some (det_at (Finite 3602879701896397 (- 55), Finite 3602879701896397 (- 55))))"
    by (simp add: find_closest_object_def get_detections_def example_tracker_def
          distance_01 distance_09 float_less_def)
  have g: "find_closest_object ieee_ops example_tracker None
        = Inr (Some (det_at (Finite 3602879701896397 (- 55), Finite 3602879701896397 (- 55))))"
    using conjunct2 [OF r] f by (rule trans)
  have ds: "detections example_tracker =
        [det_at (Finite 3602879701896397 (- 55), Finite 3602879701896397 (- 55)),
         det_at (Finite 8106479329266893 (- 53), Finite 8106479329266893 (- 53))]"
    by (simp add: example_tracker_def)
  from ne ds distance_01 distance_09 f g show ?thesis by (intro conjI)
qed

text \<open>
  C7. \<open>find_closest_object\<close> returns nothing when the tracker holds no detection,
  whatever the target, given or defaulted, and whatever the arithmetic.
\<close>

theorem C7_find_closest_object_empty:
  "find_closest_object ops (self\<lparr>detections := []\<rparr>) arg = Inr None"
  by (simp add: find_closest_object_def get_detections_def)

section \<open>Formatting and the example states\<close>

lemma py_upper_manual: "py_upper ''manual'' = ''MANUAL''"
  by code_simp

lemma py_upper_auto: "py_upper ''auto'' = ''AUTO''"
  by code_simp

lemma py_str_int_2: "py_str_int 2 = ''2''"
  by (simp add: py_str_int_def nat_digits.simps digit_char_def)

lemma py_str_int_45: "py_str_int 45 = ''45''"
  by (simp add: py_str_int_def nat_digits.simps digit_char_def)

lemma auto_state_eq:
  "auto_state = (init_backend example_sockets)
     \<lparr>vision_tracker := init_vision_tracker\<lparr>detection_callback := True\<rparr>,
      mqtt_client := Some \<lparr>subscribed = [], published = []\<rparr>\<rparr>"
  by (simp add: auto_state_def initialize_def initialize_mqtt_def init_backend_def)

lemma auto_state_simps:
  "system_status auto_state = system_status (init_backend example_sockets)"
  "mqtt_client auto_state = Some \<lparr>subscribed = [], published = []\<rparr>"
  by (simp_all add: auto_state_eq)

lemma manual_state_simps:
  "map_of (system_status manual_state) ''mode'' = Some (PStr ''manual'')"
  "mqtt_client manual_state =
     Some \<lparr>subscribed = [], published = [(''smartarm/control'', ''MODE MANUAL'')]\<rparr>"
  by (simp_all add: manual_state_def set_mode_def auto_state_simps Let_def publish_def
        py_upper_manual map_of_dict_set)

section \<open>Commands to the controller\<close>

text \<open>
  C3. \<open>manual_servo_control\<close> returns \<^verbatim>\<open>False\<close> and leaves the whole state as it was
  (so nothing is published) when the mode is not \<open>manual\<close>; when the mode is
  \<open>manual\<close> and the MQTT client is set, it returns \<^verbatim>\<open>True\<close> and publishes, on
  \<open>smartarm/control\<close>, the text \<open>SERVO\<close>, the servo id and the angle in decimal,
  separated by single spaces, and changes nothing else. For id 2 and angle 45 the text is
  \<open>SERVO 2 45\<close>.
\<close>

theorem C3_manual_servo_control:
  "(dict_index (system_status self) ''mode'' = Inr m \<and> m \<noteq> PStr ''manual'' \<longrightarrow>
      manual_servo_control self servo_id angle = (Inr False, self))
   \<and> (dict_index (system_status self) ''mode'' = Inr (PStr ''manual'')
        \<and> mqtt_client self = Some c \<longrightarrow>
      manual_servo_control self servo_id angle =
        (Inr True,
         self\<lparr>mqtt_client := Some (c\<lparr>published := published c @
            [(''smartarm/control'',
              ''SERVO '' @ py_str_int servo_id @ '' '' @ py_str_int angle)]\<rparr>)\<rparr>))
   \<and> ''SERVO '' @ py_str_int 2 @ '' '' @ py_str_int 45 = ''SERVO 2 45''"
  by (simp add: manual_servo_control_def publish_def py_str_int_2 py_str_int_45)

theorem C3_manual_servo_control_witness:
  "dict_index (system_status auto_state) ''mode'' = Inr (PStr ''auto'')
   \<and> PStr ''auto'' \<noteq> PStr ''manual''
   \<and> manual_servo_control auto_state 2 45 = (Inr False, auto_state)
   \<and> dict_index (system_status manual_state) ''mode'' = Inr (PStr ''manual'')
   \<and> mqtt_client manual_state =
        Some \<lparr>subscribed = [], published = [(''smartarm/control'', ''MODE MANUAL'')]\<rparr>
   \<and> manual_servo_control manual_state 2 45 =
        (Inr True,
         manual_state\<lparr>mqtt_client := Some \<lparr>subscribed = [],
            published = [(''smartarm/control'', ''MODE MANUAL''),
                         (''smartarm/control'', ''SERVO 2 45'')]\<rparr>\<rparr>)"
proof -
  have a: "dict_index (system_status auto_state) ''mode'' = Inr (PStr ''auto'')"
    by (simp add: auto_state_simps init_backend_def dict_index_def)
  have n: "PStr ''auto'' \<noteq> PStr ''manual''" by simp
  have m: "dict_index (system_status manual_state) ''mode'' = Inr (PStr ''manual'')"
    by (simp add: manual_state_simps dict_index_def)
  note c = manual_state_simps(2)
  have r1: "manual_servo_control auto_state 2 45 = (Inr False, auto_state)"
    using C3_manual_servo_control [of auto_state "PStr ''auto''" 2 45] a n by blast
  have r2: "manual_servo_control manual_state 2 45 =
        (Inr True,
         manual_state\<lparr>mqtt_client := Some \<lparr>subscribed = [],
            published = [(''smartarm/control'', ''MODE MANUAL''),
                         (''smartarm/control'', ''SERVO 2 45'')]\<rparr>\<rparr>)"
    using C3_manual_servo_control [of manual_state _ 2 45 "\<lparr>subscribed = [],
            published = [(''smartarm/control'', ''MODE MANUAL'')]\<rparr>"] m c
    by (simp add: py_str_int_2 py_str_int_45)
  from a n r1 m c r2 show ?thesis by (intro conjI)
qed

text \<open>
  C10. \<open>emergency_stop\<close> and \<open>move_to_home\<close> do not look at the mode: with the MQTT
  client set they publish \<open>STOP\<close> and \<open>HOME\<close> on \<open>smartarm/control\<close> and return
  \<^verbatim>\<open>True\<close>; with no client they return \<^verbatim>\<open>False\<close> and leave the state as it
  was. Neither changes the system status.
\<close>

theorem C10_stop_and_home_not_gated:
  "(mqtt_client self = Some c \<longrightarrow>
      emergency_stop self =
        (True, self\<lparr>mqtt_client := Some (c\<lparr>published := published c @
                  [(''smartarm/control'', ''STOP'')]\<rparr>)\<rparr>)
      \<and> move_to_home self =
        (True, self\<lparr>mqtt_client := Some (c\<lparr>published := published c @
                  [(''smartarm/control'', ''HOME'')]\<rparr>)\<rparr>))
   \<and> (mqtt_client self = None \<longrightarrow>
      emergency_stop self = (False, self) \<and> move_to_home self = (False, self))
   \<and> system_status (snd (emergency_stop self)) = system_status self
   \<and> system_status (snd (move_to_home self)) = system_status self"
  by (simp add: emergency_stop_def move_to_home_def publish_def split: option.splits)

theorem C10_stop_and_home_not_gated_witness:
  "mqtt_client auto_state = Some \<lparr>subscribed = [], published = []\<rparr>
   \<and> dict_index (system_status auto_state) ''mode'' = Inr (PStr ''auto'')
   \<and> emergency_stop auto_state =
        (True, auto_state\<lparr>mqtt_client :=
           Some \<lparr>subscribed = [], published = [(''smartarm/control'', ''STOP'')]\<rparr>\<rparr>)
   \<and> move_to_home auto_state =
        (True, auto_state\<lparr>mqtt_client :=
           Some \<lparr>subscribed = [], published = [(''smartarm/control'', ''HOME'')]\<rparr>\<rparr>)
   \<and> mqtt_client (init_backend example_sockets) = None
   \<and> emergency_stop (init_backend example_sockets) = (False, init_backend example_sockets)
   \<and> move_to_home (init_backend example_sockets) = (False, init_backend example_sockets)"
proof -
  note c = auto_state_simps(2)
  have a: "dict_index (system_status auto_state) ''mode'' = Inr (PStr ''auto'')"
    by (simp add: auto_state_simps init_backend_def dict_index_def)
  have n: "mqtt_client (init_backend example_sockets) = None"
    by (simp add: init_backend_def)
  have r1: "emergency_stop auto_state =
        (True, auto_state\<lparr>mqtt_client :=
           Some \<lparr>subscribed = [], published = [(''smartarm/control'', ''STOP'')]\<rparr>\<rparr>)
      \<and> move_to_home auto_state =
        (True, auto_state\<lparr>mqtt_client :=
           Some \<lparr>subscribed = [], published = [(''smartarm/control'', ''HOME'')]\<rparr>\<rparr>)"
    using C10_stop_and_home_not_gated
      [of auto_state "\<lparr>subscribed = [], published = []\<rparr>"] c by simp
  have r2: "emergency_stop (init_backend example_sockets) = (False, init_backend example_sockets)
      \<and> move_to_home (init_backend example_sockets) = (False, init_backend example_sockets)"
    using C10_stop_and_home_not_gated [of "init_backend example_sockets"] n by blast
  from c a r1 n r2 show ?thesis by blast
qed

section \<open>Keys the status message omits or adds\<close>

lemma dict_keys_dict_set:
  "k \<in> set (dict_keys d) \<Longrightarrow> dict_keys (dict_set d k v) = dict_keys d"
  by (simp add: dict_keys_def dict_set_def update_keys)

lemma dict_keys_dict_update3:
  "k1 \<in> set (dict_keys d) \<Longrightarrow> k2 \<in> set (dict_keys d) \<Longrightarrow> k3 \<in> set (dict_keys d) \<Longrightarrow>
     dict_keys (dict_update d [(k1, v1), (k2, v2), (k3, v3)]) = dict_keys d"
  by (simp add: dict_update_def dict_keys_dict_set)

lemma updated_state_status:
  "map_of (system_status updated_state) =
     (map_of (system_status auto_state))
       (''servo_angles'' \<mapsto> PList [PInt 10, PInt 20, PInt 30, PInt 40, PInt 50],
        ''distance_cm'' \<mapsto> PFloat (Finite 25 (- 1)), ''motor_speed'' \<mapsto> PInt 3)"
  by (simp add: updated_state_def status_on_mqtt_message status_msg_def status_payload_def
        map_of_dict_update3 dict_get_def)

text \<open>
  A key the payload omits is not left as it was: after the payload above was applied
  (\<open>servo_angles\<close> is \<open>[10, 20, 30, 40, 50]\<close>, \<open>motor_speed\<close> is 3), a
  payload with \<open>distance\<close> only puts \<open>servo_angles\<close> back to five times 90 and
  \<open>motor_speed\<close> to 0.
\<close>

theorem C5_omitted_keys_retained_counterexample:
  "map_of partial_payload ''servos'' = None
   \<and> map_of partial_payload ''motor_speed'' = None
   \<and> map_of (system_status updated_state) ''servo_angles''
        = Some (PList [PInt 10, PInt 20, PInt 30, PInt 40, PInt 50])
   \<and> map_of (system_status updated_state) ''motor_speed'' = Some (PInt 3)
   \<and> map_of (system_status (on_mqtt_message False updated_state (status_msg partial_payload)))
        ''servo_angles''
        = Some (PList [PInt 90, PInt 90, PInt 90, PInt 90, PInt 90])
   \<and> map_of (system_status (on_mqtt_message False updated_state (status_msg partial_payload)))
        ''motor_speed'' = Some (PInt 0)
   \<and> map_of (system_status (on_mqtt_message False updated_state (status_msg partial_payload)))
        ''servo_angles''
        \<noteq> map_of (system_status updated_state) ''servo_angles''
   \<and> map_of (system_status (on_mqtt_message False updated_state (status_msg partial_payload)))
        ''motor_speed''
        \<noteq> map_of (system_status updated_state) ''motor_speed''"
  by (simp add: status_on_mqtt_message status_msg_def partial_payload_def
        map_of_dict_update3 dict_get_def updated_state_status default_servos_def)

text \<open>
  C5, as the code has it. A status message whose payload is an object sets the field of
  each key the payload omits to the default written in the handler: \<open>servo_angles\<close>
  to \<open>[90, 90, 90, 90, 90]\<close>, \<open>distance_cm\<close> to \<open>0.0\<close>, \<open>motor_speed\<close> to
  \<open>0\<close>.
\<close>

theorem C5_omitted_keys_reset_to_defaults:
  assumes "payload msg = Some (PDict kvs)"
    and "topic msg = ''smartarm/status''"
  shows "(map_of kvs ''servos'' = None \<longrightarrow>
            map_of (system_status (on_mqtt_message loop self msg)) ''servo_angles''
              = Some (PList [PInt 90, PInt 90, PInt 90, PInt 90, PInt 90]))
       \<and> (map_of kvs ''distance'' = None \<longrightarrow>
            map_of (system_status (on_mqtt_message loop self msg)) ''distance_cm''
              = Some (PFloat (Finite 0 0)))
       \<and> (map_of kvs ''motor_speed'' = None \<longrightarrow>
            map_of (system_status (on_mqtt_message loop self msg)) ''motor_speed''
              = Some (PInt 0))"
  using assms
  by (simp add: status_on_mqtt_message map_of_dict_update3 dict_get_def default_servos_def)

theorem C5_omitted_keys_reset_to_defaults_witness:
  "payload (status_msg partial_payload) = Some (PDict partial_payload)
   \<and> topic (status_msg partial_payload) = ''smartarm/status''
   \<and> map_of partial_payload ''servos'' = None
   \<and> map_of partial_payload ''motor_speed'' = None
   \<and> map_of (system_status (on_mqtt_message False updated_state (status_msg partial_payload)))
        ''servo_angles'' = Some (PList [PInt 90, PInt 90, PInt 90, PInt 90, PInt 90])
   \<and> map_of (system_status (on_mqtt_message False updated_state (status_msg partial_payload)))
        ''motor_speed'' = Some (PInt 0)"
proof -
  have p: "payload (status_msg partial_payload) = Some (PDict partial_payload)"
    by (simp add: status_msg_def)
  have t: "topic (status_msg partial_payload) = ''smartarm/status''"
    by (simp add: status_msg_def)
  have s: "map_of partial_payload ''servos'' = None"
    by (simp add: partial_payload_def)
  have m: "map_of partial_payload ''motor_speed'' = None"
    by (simp add: partial_payload_def)
  from C5_omitted_keys_reset_to_defaults [OF p t, of False updated_state] p t s m
  show ?thesis by blast
qed

text \<open>
  C6. A key of the payload other than \<open>servos\<close>, \<open>distance\<close> and
  \<open>motor_speed\<close> is dropped: the handler returns (it is a total function: every
  exception is caught inside it), the state it returns is the one the payload without
  that key gives, and the keys of the system status are the same as before, in the same
  order (the three keys the handler writes being present, as they are from
  \<^verbatim>\<open>__init__\<close> on).
\<close>

theorem C6_unknown_payload_key_dropped:
  assumes "k \<notin> {''servos'', ''distance'', ''motor_speed''}"
    and "map_of kvs' = (map_of kvs)(k \<mapsto> v)"
    and "{''servo_angles'', ''distance_cm'', ''motor_speed''} \<subseteq> set (dict_keys (system_status self))"
  shows "on_mqtt_message loop self (msg\<lparr>payload := Some (PDict kvs')\<rparr>)
           = on_mqtt_message loop self (msg\<lparr>payload := Some (PDict kvs)\<rparr>)
       \<and> dict_keys (system_status (on_mqtt_message loop self (msg\<lparr>payload := Some (PDict kvs')\<rparr>)))
           = dict_keys (system_status self)"
proof -
  have g: "dict_get kvs' ''servos'' d = dict_get kvs ''servos'' d"
      "dict_get kvs' ''distance'' d = dict_get kvs ''distance'' d"
      "dict_get kvs' ''motor_speed'' d = dict_get kvs ''motor_speed'' d" for d
    using assms(1,2) by (auto simp add: dict_get_def)
  have e: "on_mqtt_message loop self (msg\<lparr>payload := Some (PDict kvs')\<rparr>)
           = on_mqtt_message loop self (msg\<lparr>payload := Some (PDict kvs)\<rparr>)"
    by (simp add: on_mqtt_message_def g)
  have k: "dict_keys (system_status (on_mqtt_message loop self (msg\<lparr>payload := Some (PDict kvs')\<rparr>)))
           = dict_keys (system_status self)"
    using assms(3) by (simp add: status_on_mqtt_message dict_keys_dict_update3)
  from e k show ?thesis by (rule conjI)
qed

theorem C6_unknown_payload_key_dropped_witness:
  "''colour'' \<notin> {''servos'', ''distance'', ''motor_speed''}
   \<and> map_of ((''colour'', PStr ''red'') # status_payload)
        = (map_of status_payload)(''colour'' \<mapsto> PStr ''red'')
   \<and> {''servo_angles'', ''distance_cm'', ''motor_speed''}
        \<subseteq> set (dict_keys (system_status auto_state))
   \<and> on_mqtt_message False auto_state (status_msg ((''colour'', PStr ''red'') # status_payload))
        = on_mqtt_message False auto_state (status_msg status_payload)
   \<and> dict_keys (system_status
          (on_mqtt_message False auto_state
             (status_msg ((''colour'', PStr ''red'') # status_payload))))
        = [''mode'', ''vision_active'', ''mqtt_connected'', ''last_detection'',
           ''servo_angles'', ''distance_cm'', ''motor_speed'', ''grab_count'',
           ''error_message'']"
proof -
  have a: "''colour'' \<notin> {''servos'', ''distance'', ''motor_speed''}" by simp
  have b: "map_of ((''colour'', PStr ''red'') # status_payload)
        = (map_of status_payload)(''colour'' \<mapsto> PStr ''red'')" by simp
  have ks: "dict_keys (system_status auto_state) =
         [''mode'', ''vision_active'', ''mqtt_connected'', ''last_detection'',
           ''servo_angles'', ''distance_cm'', ''motor_speed'', ''grab_count'',
           ''error_message'']"
    by (simp add: auto_state_simps init_backend_def dict_keys_def)
  have c: "{''servo_angles'', ''distance_cm'', ''motor_speed''}
        \<subseteq> set (dict_keys (system_status auto_state))"
    by (simp add: ks)
  have m: "(status_msg x)\<lparr>payload := Some (PDict y)\<rparr> = status_msg y" for x y
    by (simp add: status_msg_def)
  note r = C6_unknown_payload_key_dropped
    [OF a b c, of False "status_msg status_payload", unfolded m]
  have r1: "on_mqtt_message False auto_state
               (status_msg ((''colour'', PStr ''red'') # status_payload))
        = on_mqtt_message False auto_state (status_msg status_payload)"
    using r by (rule conjunct1)
  have r2: "dict_keys (system_status
          (on_mqtt_message False auto_state
             (status_msg ((''colour'', PStr ''red'') # status_payload))))
        = [''mode'', ''vision_active'', ''mqtt_connected'', ''last_detection'',
           ''servo_angles'', ''distance_cm'', ''motor_speed'', ''grab_count'',
           ''error_message'']"
    using conjunct2 [OF r] ks by (rule trans)
  from a b c r1 r2 show ?thesis by (intro conjI)
qed

section \<open>Broadcasting to the subscribers\<close>

text \<open>
  The loop over a subscriber set (no member twice): it never leaves by an exception, it
  notes the closed members in order, and it delivers the message once to every open
  member and to nothing else.
\<close>

lemma broadcast_loop_distinct:
  "distinct cs \<Longrightarrow>
     broadcast_loop cs m disc self =
       (None,
        disc @ filter (\<lambda>c. closed (sockets self c)) cs,
        self\<lparr>sockets := (\<lambda>w. if w \<in> set cs \<and> \<not> closed (sockets self w)
                              then (sockets self w)\<lparr>received := received (sockets self w) @ [m]\<rparr>
                              else sockets self w)\<rparr>)"
proof (induction cs arbitrary: disc self)
  case Nil
  show ?case by simp
next
  case (Cons c cs)
  from Cons.prems have d: "distinct cs" and n: "c \<notin> set cs" by simp_all
  show ?case
  proof (cases "closed (sockets self c)")
    case True
    have "(\<lambda>w. if w \<in> set (c # cs) \<and> \<not> closed (sockets self w)
                then (sockets self w)\<lparr>received := received (sockets self w) @ [m]\<rparr>
                else sockets self w)
        = (\<lambda>w. if w \<in> set cs \<and> \<not> closed (sockets self w)
                then (sockets self w)\<lparr>received := received (sockets self w) @ [m]\<rparr>
                else sockets self w)"
      using True by auto
    with True show ?thesis
      by (simp add: send_def Cons.IH [OF d])
  next
    case False
    define self1 where "self1 = self\<lparr>sockets := (sockets self)
        (c := (sockets self c)\<lparr>received := received (sockets self c) @ [m]\<rparr>)\<rparr>"
    have s1: "send c m self = Inr self1"
      using False by (simp add: send_def self1_def)
    have cl: "closed (sockets self1 w) = closed (sockets self w)" for w
      by (simp add: self1_def)
    have fe: "filter (\<lambda>c. closed (sockets self1 c)) cs
        = filter (\<lambda>c. closed (sockets self c)) (c # cs)"
      using False by (simp add: cl)
    have f: "(\<lambda>w. if w \<in> set cs \<and> \<not> closed (sockets self1 w)
                then (sockets self1 w)\<lparr>received := received (sockets self1 w) @ [m]\<rparr>
                else sockets self1 w)
        = (\<lambda>w. if w \<in> set (c # cs) \<and> \<not> closed (sockets self w)
                then (sockets self w)\<lparr>received := received (sockets self w) @ [m]\<rparr>
                else sockets self w)"
      using False n by (auto simp add: self1_def)
    have u: "self1\<lparr>sockets := g\<rparr> = self\<lparr>sockets := g\<rparr>" for g
      by (simp add: self1_def)
    have "broadcast_loop (c # cs) m disc self = broadcast_loop cs m disc self1"
      by (simp add: s1)
    also have "\<dots> =
       (None,
        disc @ filter (\<lambda>c. closed (sockets self1 c)) cs,
        self1\<lparr>sockets := (\<lambda>w. if w \<in> set cs \<and> \<not> closed (sockets self1 w)
                              then (sockets self1 w)\<lparr>received := received (sockets self1 w) @ [m]\<rparr>
                              else sockets self1 w)\<rparr>)"
      by (rule Cons.IH [OF d])
    also have "\<dots> =
       (None,
        disc @ filter (\<lambda>c. closed (sockets self c)) (c # cs),
        self\<lparr>sockets := (\<lambda>w. if w \<in> set (c # cs) \<and> \<not> closed (sockets self w)
                              then (sockets self w)\<lparr>received := received (sockets self w) @ [m]\<rparr>
                              else sockets self w)\<rparr>)"
      by (simp only: fe f u)
    finally show ?thesis .
  qed
qed

lemma broadcast_distinct:
  assumes "distinct (websocket_clients self)"
  shows "broadcast self m =
       (None,
        self\<lparr>sockets := (\<lambda>w. if w \<in> set (websocket_clients self) \<and> \<not> closed (sockets self w)
                              then (sockets self w)\<lparr>received := received (sockets self w) @ [m]\<rparr>
                              else sockets self w),
             websocket_clients :=
               filter (\<lambda>c. \<not> closed (sockets self c)) (websocket_clients self)\<rparr>)"
proof -
  have "filter (\<lambda>c. c \<notin> set (filter (\<lambda>c. closed (sockets self c)) (websocket_clients self)))
          (websocket_clients self)
        = filter (\<lambda>c. \<not> closed (sockets self c)) (websocket_clients self)"
    by (rule filter_cong) auto
  then show ?thesis
    by (simp add: broadcast_def broadcast_loop_distinct [OF assms] set_minus_def)
qed

lemma length_filter_other:
  assumes "distinct cs" and "f \<in> set cs"
  shows "length (filter (\<lambda>c. c \<noteq> f) cs) = length cs - 1"
proof -
  have "filter (\<lambda>c. c \<noteq> f) cs = removeAll f cs"
    by (induction cs) auto
  also have "\<dots> = remove1 f cs"
    using assms(1) by (simp add: distinct_remove1_removeAll)
  finally show ?thesis
    using assms(2) by (simp add: length_remove1)
qed

text \<open>
  C4. With three registered subscribers of which exactly one, \<open>f\<close>, is closed, wherever
  it stands in the iteration order, \<open>broadcast_status\<close> ends without an exception,
  leaves the two others registered and \<open>f\<close> not, has appended the status message to
  what each of the two others received, and has delivered nothing to \<open>f\<close>.
\<close>

theorem C4_broadcast_prunes_failing_subscriber:
  assumes "distinct (websocket_clients self)"
    and "length (websocket_clients self) = 3"
    and "f \<in> set (websocket_clients self)"
    and "closed (sockets self f)"
    and "\<forall>c\<in>set (websocket_clients self). c \<noteq> f \<longrightarrow> \<not> closed (sockets self c)"
  shows "fst (broadcast_status self) = None
       \<and> websocket_clients (snd (broadcast_status self))
           = filter (\<lambda>c. c \<noteq> f) (websocket_clients self)
       \<and> length (websocket_clients (snd (broadcast_status self))) = 2
       \<and> (\<forall>c\<in>set (websocket_clients self). c \<noteq> f \<longrightarrow>
             received (sockets (snd (broadcast_status self)) c)
               = received (sockets self c) @ [status_message self])
       \<and> received (sockets (snd (broadcast_status self)) f) = received (sockets self f)"
proof -
  have ne: "websocket_clients self \<noteq> []"
    using assms(2) by auto
  have b: "broadcast_status self =
       (None,
        self\<lparr>sockets := (\<lambda>w. if w \<in> set (websocket_clients self) \<and> \<not> closed (sockets self w)
                              then (sockets self w)\<lparr>received :=
                                      received (sockets self w) @ [status_message self]\<rparr>
                              else sockets self w),
             websocket_clients :=
               filter (\<lambda>c. \<not> closed (sockets self c)) (websocket_clients self)\<rparr>)"
    using ne by (simp add: broadcast_status_def broadcast_distinct [OF assms(1)])
  have fl: "filter (\<lambda>c. \<not> closed (sockets self c)) (websocket_clients self)
        = filter (\<lambda>c. c \<noteq> f) (websocket_clients self)"
    by (rule filter_cong) (use assms(4,5) in auto)
  have len: "length (filter (\<lambda>c. c \<noteq> f) (websocket_clients self)) = 2"
    using length_filter_other [OF assms(1,3)] assms(2) by simp
  show ?thesis
    using assms(4,5) by (simp add: b fl len)
qed

lemma three_subscribers_clients: "websocket_clients three_subscribers = [1, 2, 3]"
  by (simp add: three_subscribers_def run_def websocket_handler_open_def send_def
        set_add_def init_backend_def open_sockets_def Let_def)

lemma three_subscribers_closed: "closed (sockets three_subscribers w) = (w = 2)"
  by (simp add: three_subscribers_def run_def websocket_handler_open_def send_def
        set_add_def init_backend_def open_sockets_def Let_def)

theorem C4_broadcast_prunes_failing_subscriber_witness:
  "distinct (websocket_clients three_subscribers)
   \<and> length (websocket_clients three_subscribers) = 3
   \<and> 2 \<in> set (websocket_clients three_subscribers)
   \<and> closed (sockets three_subscribers 2)
   \<and> \<not> closed (sockets three_subscribers 1) \<and> \<not> closed (sockets three_subscribers 3)
   \<and> fst (broadcast_status three_subscribers) = None
   \<and> websocket_clients (snd (broadcast_status three_subscribers)) = [1, 3]
   \<and> received (sockets (snd (broadcast_status three_subscribers)) 1)
        = received (sockets three_subscribers 1) @ [status_message three_subscribers]
   \<and> received (sockets (snd (broadcast_status three_subscribers)) 3)
        = received (sockets three_subscribers 3) @ [status_message three_subscribers]
   \<and> received (sockets (snd (broadcast_status three_subscribers)) 2)
        = received (sockets three_subscribers 2)"
proof -
  have h1: "distinct (websocket_clients three_subscribers)"
    by (simp add: three_subscribers_clients)
  have h2: "length (websocket_clients three_subscribers) = 3"
    by (simp add: three_subscribers_clients)
  have h3: "2 \<in> set (websocket_clients three_subscribers)"
    by (simp add: three_subscribers_clients)
  have h4: "closed (sockets three_subscribers 2)"
    by (simp add: three_subscribers_closed)
  have h5: "\<forall>c\<in>set (websocket_clients three_subscribers).
              c \<noteq> 2 \<longrightarrow> \<not> closed (sockets three_subscribers c)"
    by (simp add: three_subscribers_closed)
  have o: "\<not> closed (sockets three_subscribers 1) \<and> \<not> closed (sockets three_subscribers 3)"
    by (simp add: three_subscribers_closed)
  note r = C4_broadcast_prunes_failing_subscriber [OF h1 h2 h3 h4 h5]
  from r have r1: "fst (broadcast_status three_subscribers) = None" by blast
  from r have r2: "websocket_clients (snd (broadcast_status three_subscribers)) = [1, 3]"
    by (simp add: three_subscribers_clients)
  from r have r3: "received (sockets (snd (broadcast_status three_subscribers)) 1)
        = received (sockets three_subscribers 1) @ [status_message three_subscribers]"
    by (simp add: three_subscribers_clients)
  from r have r4: "received (sockets (snd (broadcast_status three_subscribers)) 3)
        = received (sockets three_subscribers 3) @ [status_message three_subscribers]"
    by (simp add: three_subscribers_clients)
  from r have r5: "received (sockets (snd (broadcast_status three_subscribers)) 2)
        = received (sockets three_subscribers 2)" by blast
  from h1 h2 h3 h4 o r1 r2 r3 r4 r5 show ?thesis by (intro conjI) simp_all
qed

section \<open>The operation mode\<close>

text \<open>What each operation does to the system status.\<close>

lemma status_broadcast_loop:
  "system_status (snd (snd (broadcast_loop cs m disc self))) = system_status self"
proof (induction cs arbitrary: disc self)
  case Nil
  show ?case by simp
next
  case (Cons c cs)
  show ?case
  proof (cases "closed (sockets self c)")
    case True
    then show ?thesis by (simp add: send_def Cons.IH)
  next
    case False
    then show ?thesis by (simp add: send_def Cons.IH)
  qed
qed

lemma status_broadcast:
  "system_status (snd (broadcast self m)) = system_status self"
proof -
  obtain e d s where r: "broadcast_loop (websocket_clients self) m [] self = (e, d, s)"
    by (cases "broadcast_loop (websocket_clients self) m [] self") auto
  have "system_status s = system_status self"
    using status_broadcast_loop [of "websocket_clients self" m "[]" self] by (simp add: r)
  then show ?thesis
    by (cases e) (simp_all add: broadcast_def r)
qed

lemma status_broadcast_status:
  "system_status (snd (broadcast_status self)) = system_status self"
  by (simp add: broadcast_status_def status_broadcast)

lemma status_broadcast_detections:
  "system_status (snd (broadcast_detections self dets)) = system_status self"
  by (simp add: broadcast_detections_def status_broadcast)

lemma status_on_vision_detection:
  "system_status (snd (on_vision_detection ops loop now self dets)) =
     dict_set (system_status self) ''last_detection''
       (PDict [(''timestamp'', PStr now),
               (''count'', PInt (int (length dets))),
               (''objects'', PList (map detection_dict dets))])"
  by (simp add: on_vision_detection_def create_task_def Let_def
        split: option.splits sum.splits)

lemma status_tracking_cycle:
  "system_status (tracking_cycle ops loop now self r) = system_status self
   \<or> (\<exists>dets. system_status (tracking_cycle ops loop now self r) =
         dict_set (system_status self) ''last_detection''
           (PDict [(''timestamp'', PStr now),
                   (''count'', PInt (int (length dets))),
                   (''objects'', PList (map detection_dict dets))]))"
  by (cases r) (auto simp add: tracking_cycle_def status_on_vision_detection Let_def)

lemma status_websocket_handler_open:
  "system_status (websocket_handler_open self ws) = system_status self"
  by (simp add: websocket_handler_open_def send_def Let_def)

lemma status_manual:
  "system_status (snd (manual_servo_control self i a)) = system_status self"
  "system_status (snd (manual_motor_control self v)) = system_status self"
  by (simp_all add: manual_servo_control_def manual_motor_control_def
        split: sum.splits option.splits)

lemma status_stop_home:
  "system_status (snd (emergency_stop self)) = system_status self"
  "system_status (snd (move_to_home self)) = system_status self"
  by (simp_all add: emergency_stop_def move_to_home_def split: option.splits)

lemma status_initialize:
  "system_status (snd (initialize self v c)) = system_status self"
  by (simp add: initialize_def initialize_mqtt_def Let_def)

text \<open>Every operation but \<open>set_mode\<close> leaves the value of the key \<open>mode\<close> as it was.\<close>

lemma step_keeps_mode:
  assumes "\<not> is_set_mode e"
  shows "map_of (system_status (step ops e self)) ''mode'' = map_of (system_status self) ''mode''"
proof (cases e)
  case (Tracking_cycle loop now r)
  from status_tracking_cycle [of ops loop now self r] show ?thesis
    by (auto simp add: Tracking_cycle map_of_dict_set)
next
  case (Set_mode m)
  with assms show ?thesis by (simp add: is_set_mode_def)
next
  case (On_mqtt_message loop msg)
  then show ?thesis
    by (simp add: status_on_mqtt_message map_of_dict_update3
          split: option.splits pyval.splits)
qed (simp_all add: status_initialize on_mqtt_connect_def on_mqtt_disconnect_def
       status_on_vision_detection status_manual status_stop_home
       status_websocket_handler_open websocket_handler_close_def
       status_broadcast_status status_broadcast_detections
       start_vision_tracking_def stop_vision_tracking_def map_of_dict_set)

lemma mode_of_set_mode:
  "mode_of (set_mode self m) =
     (if m \<in> {''auto'', ''manual''} then Inr (PStr m) else mode_of self)"
  by (simp add: mode_of_def set_mode_def dict_index_def map_of_dict_set Let_def
        split: option.splits)

lemma step_mode_ok:
  assumes "mode_of self \<in> {Inr (PStr ''auto''), Inr (PStr ''manual'')}"
  shows "mode_of (step ops e self) \<in> {Inr (PStr ''auto''), Inr (PStr ''manual'')}"
proof (cases "is_set_mode e")
  case True
  then obtain m where "e = Set_mode m"
    by (cases e) (simp_all add: is_set_mode_def)
  with assms show ?thesis
    by (simp add: mode_of_set_mode)
next
  case False
  from step_keeps_mode [OF False, of ops self] assms show ?thesis
    by (simp add: mode_of_def dict_index_def)
qed

lemma run_mode_ok:
  "mode_of self \<in> {Inr (PStr ''auto''), Inr (PStr ''manual'')} \<Longrightarrow>
     mode_of (run ops evs self) \<in> {Inr (PStr ''auto''), Inr (PStr ''manual'')}"
  unfolding run_def
proof (induction evs arbitrary: self)
  case Nil
  then show ?case by simp
next
  case (Cons e evs)
  from Cons.IH [OF step_mode_ok [OF Cons.prems, of ops e]] show ?case by simp
qed

lemma mode_of_init: "mode_of (init_backend socks) = Inr (PStr ''auto'')"
  by (simp add: mode_of_def init_backend_def dict_index_def)

text \<open>
  C9. In every state the backend reaches from \<^verbatim>\<open>__init__\<close> by its operations, in
  any number and order, \<^verbatim>\<open>system_status['mode']\<close> is \<open>auto\<close> or \<open>manual\<close>. It
  starts as \<open>auto\<close>; \<open>set_mode\<close> stores an argument that is \<open>auto\<close> or
  \<open>manual\<close>, and for any other argument returns the state as it was (nothing
  stored, nothing published); every other operation leaves the mode as it was.
\<close>

theorem C9_mode_is_auto_or_manual:
  "mode_of (run ops evs (init_backend socks)) \<in> {Inr (PStr ''auto''), Inr (PStr ''manual'')}
   \<and> mode_of (init_backend socks) = Inr (PStr ''auto'')
   \<and> (m \<in> {''auto'', ''manual''} \<longrightarrow> mode_of (set_mode self m) = Inr (PStr m))
   \<and> (m \<notin> {''auto'', ''manual''} \<longrightarrow> set_mode self m = self)
   \<and> (\<not> is_set_mode e \<longrightarrow> mode_of (step ops e self) = mode_of self)"
proof -
  have a: "mode_of (run ops evs (init_backend socks)) \<in> {Inr (PStr ''auto''), Inr (PStr ''manual'')}"
    by (rule run_mode_ok) (simp add: mode_of_init)
  have b: "m \<in> {''auto'', ''manual''} \<longrightarrow> mode_of (set_mode self m) = Inr (PStr m)"
    by (simp add: mode_of_set_mode)
  have c: "m \<notin> {''auto'', ''manual''} \<longrightarrow> set_mode self m = self"
    by (simp add: set_mode_def)
  have d: "\<not> is_set_mode e \<longrightarrow> mode_of (step ops e self) = mode_of self"
    by (simp add: mode_of_def dict_index_def step_keeps_mode)
  from a mode_of_init b c d show ?thesis by (intro conjI)
qed

theorem C9_mode_is_auto_or_manual_witness:
  "mode_of (run ieee_ops [Initialize True True, Set_mode ''manual'', Set_mode ''turbo'',
                 On_mqtt_message False (status_msg status_payload)]
              (init_backend example_sockets)) = Inr (PStr ''manual'')
   \<and> mode_of (init_backend example_sockets) = Inr (PStr ''auto'')
   \<and> ''manual'' \<in> {''auto'', ''manual''}
   \<and> mode_of (set_mode auto_state ''manual'') = Inr (PStr ''manual'')
   \<and> ''turbo'' \<notin> {''auto'', ''manual''}
   \<and> set_mode manual_state ''turbo'' = manual_state
   \<and> \<not> is_set_mode Emergency_stop
   \<and> mode_of (step ieee_ops Emergency_stop manual_state) = mode_of manual_state"
proof -
  have i: "''manual'' \<in> {''auto'', ''manual''}" by simp
  have o: "''turbo'' \<notin> {''auto'', ''manual''}" by simp
  have n: "\<not> is_set_mode Emergency_stop" by (simp add: is_set_mode_def)
  note r1 = C9_mode_is_auto_or_manual
    [of ieee_ops "[Initialize True True, Set_mode ''manual'', Set_mode ''turbo'',
          On_mqtt_message False (status_msg status_payload)]" example_sockets
        "''manual''" auto_state Emergency_stop]
  note r2 = C9_mode_is_auto_or_manual
    [of ieee_ops "[]" example_sockets "''turbo''" manual_state Emergency_stop]
  have run_eq: "run ieee_ops [Initialize True True, Set_mode ''manual'', Set_mode ''turbo'',
                 On_mqtt_message False (status_msg status_payload)]
              (init_backend example_sockets)
            = on_mqtt_message False manual_state (status_msg status_payload)"
    by (simp add: run_def manual_state_def auto_state_def set_mode_def [of _ "''turbo''"])
  have m: "mode_of (on_mqtt_message False manual_state (status_msg status_payload))
             = Inr (PStr ''manual'')"
    by (simp add: mode_of_def dict_index_def status_on_mqtt_message status_msg_def
          map_of_dict_update3 manual_state_simps)
  have a: "mode_of (run ieee_ops [Initialize True True, Set_mode ''manual'', Set_mode ''turbo'',
                 On_mqtt_message False (status_msg status_payload)]
              (init_backend example_sockets)) = Inr (PStr ''manual'')"
    by (simp only: run_eq m)
  have b: "mode_of (init_backend example_sockets) = Inr (PStr ''auto'')"
    using r1 by blast
  have c: "mode_of (set_mode auto_state ''manual'') = Inr (PStr ''manual'')"
    using r1 i by blast
  have d: "set_mode manual_state ''turbo'' = manual_state"
    using r2 o by blast
  have e: "mode_of (step ieee_ops Emergency_stop manual_state) = mode_of manual_state"
    using r2 n by blast
  from a b i c o d n e show ?thesis by (intro conjI)
qed

section \<open>What every run keeps\<close>

lemma step_keeps_keys:
  assumes "dict_keys (system_status self) = dict_keys (system_status (init_backend socks))"
  shows "dict_keys (system_status (step ops e self)) = dict_keys (system_status (init_backend socks))"
proof -
  have ks: "set (dict_keys (system_status self)) =
      {''mode'', ''vision_active'', ''mqtt_connected'', ''last_detection'', ''servo_angles'',
       ''distance_cm'', ''motor_speed'', ''grab_count'', ''error_message''}"
    unfolding assms by (simp add: init_backend_def dict_keys_def)
  have s: "k \<in> set (dict_keys (system_status self)) \<Longrightarrow>
             dict_keys (dict_set (system_status self) k v) = dict_keys (system_status (init_backend socks))"
    for k v
    using assms by (simp add: dict_keys_dict_set)
  have in_ks: "''mode'' \<in> set (dict_keys (system_status self))"
      "''vision_active'' \<in> set (dict_keys (system_status self))"
      "''mqtt_connected'' \<in> set (dict_keys (system_status self))"
      "''last_detection'' \<in> set (dict_keys (system_status self))"
      "''servo_angles'' \<in> set (dict_keys (system_status self))"
      "''distance_cm'' \<in> set (dict_keys (system_status self))"
      "''motor_speed'' \<in> set (dict_keys (system_status self))"
    unfolding ks by simp_all
  show ?thesis
  proof (cases e)
    case (Tracking_cycle loop now r)
    from status_tracking_cycle [of ops loop now self r] show ?thesis
      by (auto simp add: Tracking_cycle assms s [OF in_ks(4)])
  next
    case (Set_mode m)
    then show ?thesis
      by (simp add: set_mode_def Let_def assms s [OF in_ks(1)] split: option.splits)
  next
    case (On_mqtt_message loop msg)
    then show ?thesis
      by (simp add: status_on_mqtt_message assms dict_keys_dict_update3 [OF in_ks(5,6,7)]
            split: option.splits pyval.splits)
  qed (simp_all add: assms status_initialize on_mqtt_connect_def on_mqtt_disconnect_def
         status_on_vision_detection status_manual status_stop_home
         status_websocket_handler_open websocket_handler_close_def
         status_broadcast_status status_broadcast_detections
         start_vision_tracking_def stop_vision_tracking_def
         s [OF in_ks(2)] s [OF in_ks(3)] s [OF in_ks(4)])
qed

text \<open>
  The system status keeps the keys \<^verbatim>\<open>__init__\<close> gave it, in their order: no
  operation adds or removes a key.
\<close>

lemma run_keeps_keys:
  "dict_keys (system_status (run ops evs (init_backend socks))) =
     [''mode'', ''vision_active'', ''mqtt_connected'', ''last_detection'', ''servo_angles'',
      ''distance_cm'', ''motor_speed'', ''grab_count'', ''error_message'']"
proof -
  have "dict_keys (system_status self) = dict_keys (system_status (init_backend socks)) \<Longrightarrow>
        dict_keys (system_status (fold (step ops) evs self))
          = dict_keys (system_status (init_backend socks))" for self
  proof (induction evs arbitrary: self)
    case Nil
    then show ?case by simp
  next
    case (Cons e evs)
    from Cons.IH [OF step_keeps_keys [OF Cons.prems, of ops e]] show ?case by simp
  qed
  from this [OF refl] show ?thesis
    by (simp add: run_def init_backend_def dict_keys_def)
qed

lemma clients_broadcast_loop:
  "websocket_clients (snd (snd (broadcast_loop cs m disc self))) = websocket_clients self"
proof (induction cs arbitrary: disc self)
  case Nil
  show ?case by simp
next
  case (Cons c cs)
  show ?case
  proof (cases "closed (sockets self c)")
    case True
    then show ?thesis by (simp add: send_def Cons.IH)
  next
    case False
    then show ?thesis by (simp add: send_def Cons.IH)
  qed
qed

lemma distinct_broadcast:
  assumes "distinct (websocket_clients self)"
  shows "distinct (websocket_clients (snd (broadcast self m)))"
proof -
  obtain e d s where r: "broadcast_loop (websocket_clients self) m [] self = (e, d, s)"
    by (cases "broadcast_loop (websocket_clients self) m [] self") auto
  have "websocket_clients s = websocket_clients self"
    using clients_broadcast_loop [of "websocket_clients self" m "[]" self] by (simp add: r)
  with assms show ?thesis
    by (cases e) (simp_all add: broadcast_def r set_minus_def)
qed

lemma clients_on_vision_detection:
  "websocket_clients (snd (on_vision_detection ops loop now self dets)) = websocket_clients self"
  by (simp add: on_vision_detection_def create_task_def Let_def
        split: option.splits sum.splits)

lemma step_keeps_distinct:
  assumes "distinct (websocket_clients self)"
  shows "distinct (websocket_clients (step ops e self))"
proof (cases e)
  case (On_mqtt_message loop msg)
  with assms show ?thesis
    by (simp add: on_mqtt_message_def create_task_def Let_def
          split: option.splits pyval.splits)
next
  case (Tracking_cycle loop now r)
  with assms show ?thesis
    by (cases r) (simp_all add: tracking_cycle_def clients_on_vision_detection Let_def)
next
  case (Websocket_open ws)
  with assms show ?thesis
    by (simp add: websocket_handler_open_def send_def set_add_def set_discard_def Let_def)
next
  case (Set_mode m)
  with assms show ?thesis
    by (simp add: set_mode_def Let_def split: option.splits)
next
  case (Manual_servo_control i a)
  with assms show ?thesis
    by (simp add: manual_servo_control_def split: sum.splits option.splits)
next
  case (Manual_motor_control v)
  with assms show ?thesis
    by (simp add: manual_motor_control_def split: sum.splits option.splits)
qed (use assms in \<open>simp_all add: initialize_def initialize_mqtt_def Let_def
       on_mqtt_connect_def on_mqtt_disconnect_def clients_on_vision_detection
       emergency_stop_def move_to_home_def websocket_handler_close_def set_discard_def
       broadcast_status_def broadcast_detections_def distinct_broadcast
       start_vision_tracking_def stop_vision_tracking_def split: option.splits\<close>)

text \<open>The subscriber list never holds a subscriber twice: it stands for a set.\<close>

lemma run_keeps_distinct:
  "distinct (websocket_clients (run ops evs (init_backend socks)))"
proof -
  have "distinct (websocket_clients self) \<Longrightarrow>
        distinct (websocket_clients (fold (step ops) evs self))" for self
  proof (induction evs arbitrary: self)
    case Nil
    then show ?case by simp
  next
    case (Cons e evs)
    from Cons.IH [OF step_keeps_distinct [OF Cons.prems, of ops e]] show ?case by simp
  qed
  then show ?thesis
    by (simp add: run_def init_backend_def)
qed

end
